theory Spec2Isabelle
  imports Complex_Main "HOL-Library.Multiset"
begin

section \<open>Bedrock bank detection: data model\<close>

text \<open>
  The module \<^verbatim>\<open>src/river/bedrock_banks.py\<close> samples elevations along transects that
  cross a river and looks, on each side of the river, for the first sample where the
  terrain rises sharply. Elevations, distances and thresholds are Python floats; they
  are modelled by \<^typ>\<open>real\<close>, so rounding is not part of the model. Everything the
  code can raise inside the analysis (a division by a zero \<^verbatim>\<open>point_spacing\<close>, a list
  index out of range) is a value of type \<open>error\<close>.
\<close>

type_synonym point = "real \<times> real"

datatype error = ZeroDivisionError | IndexError

text \<open>The dictionary appended to \<^verbatim>\<open>profiles[profile_id]\<close>.\<close>

record sample =
  point :: point
  elevation :: real
  distance :: real
  profile_id :: int

text \<open>The dictionary returned by \<^verbatim>\<open>_find_bedrock_on_side\<close>.\<close>

record bank_point =
  bp_point :: point
  bp_elevation :: real
  height_diff :: real
  side :: string
  bp_profile_id :: int
  distance_along :: real

section \<open>The per-side bank classifier\<close>

text \<open>\<^verbatim>\<open>range(a, b)\<close> for \<open>0 \<le> a\<close>: the indices \<open>a, a + 1, ..., b - 1\<close>, none when \<open>b \<le> a\<close>.\<close>

definition py_range :: "int \<Rightarrow> int \<Rightarrow> nat list" where
  "py_range a b = [nat a ..< nat b]"

text \<open>\<^verbatim>\<open>math.degrees\<close>.\<close>

definition degrees :: "real \<Rightarrow> real" where
  "degrees x = x * (180 / pi)"

text \<open>
  \<^verbatim>\<open>math.degrees(math.atan(elevation_change / point_spacing))\<close>; the division raises
  when the spacing is zero.
\<close>

definition slope_degrees :: "real \<Rightarrow> real \<Rightarrow> error + real" where
  "slope_degrees elevation_change point_spacing =
     (if point_spacing = 0 then Inl ZeroDivisionError
      else Inr (degrees (arctan (elevation_change / point_spacing))))"

text \<open>
  The inner loop \<^verbatim>\<open>for j in range(1, min_consecutive)\<close>. The source leaves it with
  \<^verbatim>\<open>is_stable = False\<close> at two places; the model keeps which one was taken:
  \<open>RanOut\<close> for \<^verbatim>\<open>i + j >= len(points)\<close>, \<open>Dropped\<close> for a later sample below the
  height threshold. \<open>Stable\<close> is \<^verbatim>\<open>is_stable == True\<close> at the end of the loop.
\<close>

datatype stability = Stable | RanOut | Dropped

fun stability_loop :: "sample list \<Rightarrow> real \<Rightarrow> real \<Rightarrow> nat \<Rightarrow> nat list \<Rightarrow> stability" where
  "stability_loop points river_elevation height_threshold i [] = Stable"
| "stability_loop points river_elevation height_threshold i (j # js) =
     (if i + j \<ge> length points then RanOut
      else if elevation (points ! (i + j)) - river_elevation < height_threshold then Dropped
      else stability_loop points river_elevation height_threshold i js)"

text \<open>
  The slope gate of one candidate: the block under \<^verbatim>\<open>if i > 0\<close>. The result says
  whether its \<^verbatim>\<open>continue\<close> is taken; at \<open>i = 0\<close> the block is not entered.
\<close>

definition slope_rejects :: "sample list \<Rightarrow> real \<Rightarrow> real \<Rightarrow> nat \<Rightarrow> error + bool" where
  "slope_rejects points slope_threshold point_spacing i =
     (if i > 0
      then (case slope_degrees (elevation (points ! i) - elevation (points ! (i - 1)))
                   point_spacing of
              Inl e \<Rightarrow> Inl e
            | Inr sl \<Rightarrow> Inr (sl < slope_threshold))
      else Inr False)"

text \<open>
  The outer loop \<^verbatim>\<open>for i in range(len(points) - min_consecutive + 1)\<close>, as a recursion
  over the remaining indices. \<^verbatim>\<open>continue\<close> is the recursive call, \<^verbatim>\<open>return\<close> ends
  the recursion, and falling out of the loop returns \<^verbatim>\<open>None\<close>.
\<close>

fun scan :: "sample list \<Rightarrow> real \<Rightarrow> real \<Rightarrow> real \<Rightarrow> int \<Rightarrow> real \<Rightarrow> string \<Rightarrow> int \<Rightarrow> real
    \<Rightarrow> nat list \<Rightarrow> error + bank_point option" where
  "scan points river_elevation height_threshold slope_threshold min_consecutive
     point_spacing sd pid river_distance [] = Inr None"
| "scan points river_elevation height_threshold slope_threshold min_consecutive
     point_spacing sd pid river_distance (i # is) =
     (if i \<ge> length points then Inl IndexError
      else if elevation (points ! i) - river_elevation < height_threshold
      then scan points river_elevation height_threshold slope_threshold min_consecutive
             point_spacing sd pid river_distance is
      else
        (case slope_rejects points slope_threshold point_spacing i of
           Inl e \<Rightarrow> Inl e
         | Inr True \<Rightarrow>
             scan points river_elevation height_threshold slope_threshold min_consecutive
               point_spacing sd pid river_distance is
         | Inr False \<Rightarrow>
             if stability_loop points river_elevation height_threshold i
                  (py_range 1 min_consecutive) = Stable
             then Inr (Some \<lparr> bp_point = point (points ! i),
                              bp_elevation = elevation (points ! i),
                              height_diff = elevation (points ! i) - river_elevation,
                              side = sd,
                              bp_profile_id = pid,
                              distance_along = river_distance \<rparr>)
             else scan points river_elevation height_threshold slope_threshold min_consecutive
                    point_spacing sd pid river_distance is))"

definition find_bedrock_on_side :: "sample list \<Rightarrow> real \<Rightarrow> real \<Rightarrow> real \<Rightarrow> int \<Rightarrow> real
    \<Rightarrow> string \<Rightarrow> int \<Rightarrow> real \<Rightarrow> error + bank_point option" where
  "find_bedrock_on_side points river_elevation height_threshold slope_threshold
     min_consecutive point_spacing sd pid river_distance =
     scan points river_elevation height_threshold slope_threshold min_consecutive
       point_spacing sd pid river_distance
       (py_range 0 (int (length points) - min_consecutive + 1))"

section \<open>Grouping samples into profiles\<close>

text \<open>
  A feature of the sampled points layer, as far as the analysis reads it. The attributes
  \<^verbatim>\<open>TR_ID\<close>, \<^verbatim>\<open>TR_SEGMENT\<close>, \<^verbatim>\<open>fid\<close> and \<^verbatim>\<open>elev_1\<close> may be \<^verbatim>\<open>None\<close>;
  \<open>feat_id\<close> is \<^verbatim>\<open>feature.id()\<close>, \<open>geometry\<close> is \<^verbatim>\<open>feature.geometry().asPoint()\<close> and
  \<open>attr_distance\<close> is the attribute \<^verbatim>\<open>distance\<close>.
\<close>

record feature =
  TR_ID :: "int option"
  TR_SEGMENT :: "int option"
  fid :: "int option"
  feat_id :: int
  geometry :: point
  elev_1 :: "real option"
  attr_distance :: real

text \<open>The chain of \<^verbatim>\<open>if profile_id is None\<close> tests.\<close>

definition profile_key :: "feature \<Rightarrow> int" where
  "profile_key f =
     (case TR_ID f of
        Some v \<Rightarrow> v
      | None \<Rightarrow>
          (case TR_SEGMENT f of
             Some v \<Rightarrow> v
           | None \<Rightarrow> (case fid f of Some v \<Rightarrow> v | None \<Rightarrow> feat_id f)))"

text \<open>
  The dictionary \<^verbatim>\<open>profiles\<close> keeps its keys in insertion order, and the analysis
  iterates over it in that order: it is an association list with one entry per key.
\<close>

type_synonym profiles = "(int \<times> sample list) list"

text \<open>\<^verbatim>\<open>if profile_id not in profiles: profiles[profile_id] = []\<close>.\<close>

fun ensure_key :: "int \<Rightarrow> profiles \<Rightarrow> profiles" where
  "ensure_key k [] = [(k, [])]"
| "ensure_key k ((k', vs) # rest) =
     (if k' = k then (k', vs) # rest else (k', vs) # ensure_key k rest)"

text \<open>\<^verbatim>\<open>profiles[profile_id].append(s)\<close>, for a key that is present.\<close>

fun append_sample :: "int \<Rightarrow> sample \<Rightarrow> profiles \<Rightarrow> profiles" where
  "append_sample k s [] = []"
| "append_sample k s ((k', vs) # rest) =
     (if k' = k then (k', vs @ [s]) # rest else (k', vs) # append_sample k s rest)"

text \<open>One iteration of the grouping loop; the NODATA test is the \<^verbatim>\<open>continue\<close>.\<close>

definition group_step :: "profiles \<Rightarrow> feature \<Rightarrow> profiles" where
  "group_step profs f =
     (let pid = profile_key f;
          profs' = ensure_key pid profs
      in case elev_1 f of
           None \<Rightarrow> profs'
         | Some e \<Rightarrow>
             if e = - 9999 then profs'
             else append_sample pid
                    \<lparr> point = geometry f, elevation = e,
                      distance = attr_distance f, profile_id = pid \<rparr> profs')"

definition group_profiles :: "feature list \<Rightarrow> profiles" where
  "group_profiles feats = foldl group_step [] feats"

section \<open>The river anchor\<close>

text \<open>
  The river geometry is an object of the geometry engine. The analysis uses its truth
  value (\<^verbatim>\<open>if river_geom:\<close>), the distance from a point to it and the position of a
  point along it; these three are the fields of the model. \<^verbatim>\<open>combine\<close>, the union of
  two geometries, is a parameter of the analysis.
\<close>

record river_geometry =
  truthy :: bool
  geom_distance :: "point \<Rightarrow> real"
  lineLocatePoint :: "point \<Rightarrow> real"

text \<open>The loop over \<^verbatim>\<open>rivers_layer.getFeatures()\<close>: \<^verbatim>\<open>None\<close> for a layer with no feature.\<close>

definition combine_rivers :: "(river_geometry \<Rightarrow> river_geometry \<Rightarrow> river_geometry)
    \<Rightarrow> river_geometry list \<Rightarrow> river_geometry option" where
  "combine_rivers combine rivers =
     (case rivers of [] \<Rightarrow> None | g # gs \<Rightarrow> Some (foldl combine g gs))"

text \<open>
  The loop \<^verbatim>\<open>for idx, p in enumerate(profile_points)\<close> with its state
  \<^verbatim>\<open>(min_dist, river_idx)\<close>; \<open>None\<close> is \<^verbatim>\<open>float('inf')\<close>, which every distance is below.
\<close>

fun nearest_loop :: "river_geometry \<Rightarrow> (nat \<times> sample) list \<Rightarrow> real option \<times> nat
    \<Rightarrow> real option \<times> nat" where
  "nearest_loop g [] st = st"
| "nearest_loop g ((idx, p) # rest) (min_dist, river_idx) =
     (let dist = geom_distance g (point p)
      in if (case min_dist of None \<Rightarrow> True | Some m \<Rightarrow> dist < m)
         then nearest_loop g rest (Some dist, idx)
         else nearest_loop g rest (min_dist, river_idx))"

definition select_river_idx :: "river_geometry \<Rightarrow> sample list \<Rightarrow> nat" where
  "select_river_idx g profile_points =
     (if truthy g
      then snd (nearest_loop g (List.enumerate 0 profile_points)
                  (None, length profile_points div 2))
      else length profile_points div 2)"

section \<open>Analysis of the profiles\<close>

text \<open>The two slices handed to the classifier.\<close>

definition left_side :: "sample list \<Rightarrow> nat \<Rightarrow> sample list" where
  "left_side profile_points river_idx = rev (take river_idx profile_points)"

definition right_side :: "sample list \<Rightarrow> nat \<Rightarrow> sample list" where
  "right_side profile_points river_idx = drop (river_idx + 1) profile_points"

text \<open>\<^verbatim>\<open>if left_bedrock: bedrock_points.append(left_bedrock)\<close>: what one side adds.\<close>

definition found :: "bank_point option \<Rightarrow> bank_point list" where
  "found r = (case r of None \<Rightarrow> [] | Some b \<Rightarrow> [b])"

text \<open>The body of the profile loop after the sort; the result is what it appends.\<close>

definition analyze_sorted_profile :: "river_geometry \<Rightarrow> real \<Rightarrow> real \<Rightarrow> int \<Rightarrow> real
    \<Rightarrow> int \<Rightarrow> sample list \<Rightarrow> error + bank_point list" where
  "analyze_sorted_profile g height_threshold slope_threshold min_consecutive point_spacing
     pid profile_points =
     (let river_idx = select_river_idx g profile_points
      in if river_idx \<ge> length profile_points then Inl IndexError
         else
           let river_point = profile_points ! river_idx;
               river_elevation = elevation river_point;
               river_distance =
                 (if truthy g then lineLocatePoint g (point river_point) else 0)
           in case find_bedrock_on_side (left_side profile_points river_idx)
                     river_elevation height_threshold slope_threshold min_consecutive
                     point_spacing ''left'' pid river_distance of
                Inl e \<Rightarrow> Inl e
              | Inr left_bedrock \<Rightarrow>
                  (case find_bedrock_on_side (right_side profile_points river_idx)
                          river_elevation height_threshold slope_threshold min_consecutive
                          point_spacing ''right'' pid river_distance of
                     Inl e \<Rightarrow> Inl e
                   | Inr right_bedrock \<Rightarrow> Inr (found left_bedrock @ found right_bedrock)))"

text \<open>The whole body: the length test, the sort by \<^verbatim>\<open>distance\<close>, then the rest.\<close>

definition analyze_profile :: "river_geometry \<Rightarrow> real \<Rightarrow> real \<Rightarrow> int \<Rightarrow> real
    \<Rightarrow> int \<times> sample list \<Rightarrow> error + bank_point list" where
  "analyze_profile g height_threshold slope_threshold min_consecutive point_spacing entry =
     (case entry of (pid, profile_points) \<Rightarrow>
        if int (length profile_points) < min_consecutive + 1 then Inr []
        else analyze_sorted_profile g height_threshold slope_threshold min_consecutive
               point_spacing pid (sort_key distance profile_points))"

text \<open>The loop \<^verbatim>\<open>for profile_id, profile_points in profiles.items()\<close>.\<close>

fun analyze_loop :: "river_geometry \<Rightarrow> real \<Rightarrow> real \<Rightarrow> int \<Rightarrow> real \<Rightarrow> profiles
    \<Rightarrow> bank_point list \<Rightarrow> error + bank_point list" where
  "analyze_loop g height_threshold slope_threshold min_consecutive point_spacing []
     bedrock_points = Inr bedrock_points"
| "analyze_loop g height_threshold slope_threshold min_consecutive point_spacing
     (entry # rest) bedrock_points =
     (case analyze_profile g height_threshold slope_threshold min_consecutive
             point_spacing entry of
        Inl e \<Rightarrow> Inl e
      | Inr bs \<Rightarrow>
          analyze_loop g height_threshold slope_threshold min_consecutive point_spacing
            rest (bedrock_points @ bs))"

definition analyze_transects_for_bedrock ::
  "(river_geometry \<Rightarrow> river_geometry \<Rightarrow> river_geometry) \<Rightarrow> feature list
    \<Rightarrow> river_geometry list \<Rightarrow> real \<Rightarrow> real \<Rightarrow> int \<Rightarrow> real \<Rightarrow> error + bank_point list" where
  "analyze_transects_for_bedrock combine points_layer rivers_layer height_threshold
     slope_threshold min_consecutive point_spacing =
     (case combine_rivers combine rivers_layer of
        None \<Rightarrow> Inr []
      | Some river_geom \<Rightarrow>
          analyze_loop river_geom height_threshold slope_threshold min_consecutive
            point_spacing (group_profiles points_layer) [])"

section \<open>The result of a run\<close>

text \<open>
  \<^verbatim>\<open>detect_bedrock_banks\<close> from step 4 on. The sampled points layer (steps 1 to 3) and
  the path builder with its smoothing (steps 5 to 7, \<open>build_lines\<close>) belong to the
  geometry engine and are parameters. The two messages printed after the analysis are
  constructors of \<open>message\<close>; a layer is its source, its name, its provider and its
  features.
\<close>

datatype message = NoBanksDetected | FoundPoints nat

record 'f vector_layer =
  source :: string
  layer_name :: string
  provider :: string
  layer_features :: "'f list"

definition detect_bedrock_banks ::
  "(river_geometry \<Rightarrow> river_geometry \<Rightarrow> river_geometry) \<Rightarrow> (bank_point list \<Rightarrow> 'f list)
    \<Rightarrow> river_geometry list \<Rightarrow> feature list \<Rightarrow> string \<Rightarrow> real \<Rightarrow> real \<Rightarrow> real \<Rightarrow> int
    \<Rightarrow> error + message \<times> 'f vector_layer" where
  "detect_bedrock_banks combine build_lines rivers_layer points_with_z output_path
     height_threshold slope_threshold point_spacing min_consecutive =
     (case analyze_transects_for_bedrock combine points_with_z rivers_layer
             height_threshold slope_threshold min_consecutive point_spacing of
        Inl e \<Rightarrow> Inl e
      | Inr bedrock_points \<Rightarrow>
          if bedrock_points = []
          then Inr (NoBanksDetected,
                    \<lparr> source = ''LineString?crs=EPSG:3857'', layer_name = ''bedrock_banks'',
                      provider = ''memory'', layer_features = [] \<rparr>)
          else Inr (FoundPoints (length bedrock_points),
                    \<lparr> source = output_path, layer_name = ''bedrock_banks'',
                      provider = ''ogr'', layer_features = build_lines bedrock_points \<rparr>))"

section \<open>The criteria in the words of the specification\<close>

text \<open>
  These predicates follow the specification, not the loops: the height criterion, the
  slope criterion (nothing to check at index 0), and the stability criterion (each of
  the following \<open>min_consecutive - 1\<close> samples exists and passes the height criterion).
\<close>

definition height_criterion :: "sample list \<Rightarrow> real \<Rightarrow> real \<Rightarrow> nat \<Rightarrow> bool" where
  "height_criterion points river_elevation height_threshold i =
     (height_threshold \<le> elevation (points ! i) - river_elevation)"

definition slope_criterion :: "sample list \<Rightarrow> real \<Rightarrow> real \<Rightarrow> nat \<Rightarrow> bool" where
  "slope_criterion points slope_threshold point_spacing i =
     (0 < i \<longrightarrow>
      slope_threshold \<le>
        degrees (arctan ((elevation (points ! i) - elevation (points ! (i - 1)))
                          / point_spacing)))"

definition stability_criterion :: "sample list \<Rightarrow> real \<Rightarrow> real \<Rightarrow> int \<Rightarrow> nat \<Rightarrow> bool" where
  "stability_criterion points river_elevation height_threshold min_consecutive i =
     (\<forall>j. 1 \<le> j \<and> int j < min_consecutive \<longrightarrow>
          i + j < length points \<and> height_criterion points river_elevation height_threshold (i + j))"

definition qualifies :: "sample list \<Rightarrow> real \<Rightarrow> real \<Rightarrow> real \<Rightarrow> int \<Rightarrow> real \<Rightarrow> nat \<Rightarrow> bool" where
  "qualifies points river_elevation height_threshold slope_threshold min_consecutive
     point_spacing i =
     (i < length points \<and>
      height_criterion points river_elevation height_threshold i \<and>
      slope_criterion points slope_threshold point_spacing i \<and>
      stability_criterion points river_elevation height_threshold min_consecutive i)"

text \<open>The BankPoint made of the sample at scan index \<open>i\<close>.\<close>

definition bank_at :: "sample list \<Rightarrow> real \<Rightarrow> string \<Rightarrow> int \<Rightarrow> real \<Rightarrow> nat \<Rightarrow> bank_point" where
  "bank_at points river_elevation sd pid river_distance i =
     \<lparr> bp_point = point (points ! i),
       bp_elevation = elevation (points ! i),
       height_diff = elevation (points ! i) - river_elevation,
       side = sd,
       bp_profile_id = pid,
       distance_along = river_distance \<rparr>"

text \<open>A sample that is not NODATA, and the sample the grouping makes of it.\<close>

definition has_elevation :: "feature \<Rightarrow> bool" where
  "has_elevation f = (case elev_1 f of None \<Rightarrow> False | Some e \<Rightarrow> e \<noteq> - 9999)"

definition sample_of :: "feature \<Rightarrow> sample" where
  "sample_of f =
     \<lparr> point = geometry f, elevation = the (elev_1 f),
       distance = attr_distance f, profile_id = profile_key f \<rparr>"

text \<open>The first present value of a list of optional fields, else a default.\<close>

fun first_present :: "int option list \<Rightarrow> int \<Rightarrow> int" where
  "first_present [] d = d"
| "first_present (None # xs) d = first_present xs d"
| "first_present (Some v # xs) d = v"

text \<open>What a profile dictionary stores under a key; nothing when the key is absent.\<close>

definition stored :: "profiles \<Rightarrow> int \<Rightarrow> sample list" where
  "stored P pid = (case map_of P pid of None \<Rightarrow> [] | Some vs \<Rightarrow> vs)"

section \<open>The scan, index by index\<close>

lemma set_py_range_one: "set (py_range 1 mc) = {j. 1 \<le> j \<and> int j < mc}"
  by (auto simp: py_range_def)

lemma set_py_range_zero: "set (py_range 0 n) = {i. int i < n}"
  by (auto simp: py_range_def)

lemma stability_loop_Stable:
  "stability_loop points re ht i js = Stable \<longleftrightarrow>
   (\<forall>j\<in>set js. i + j < length points \<and> height_criterion points re ht (i + j))"
  by (induction js) (auto simp: height_criterion_def)

lemma stability_loop_criterion:
  "stability_loop points re ht i (py_range 1 mc) = Stable \<longleftrightarrow>
   stability_criterion points re ht mc i"
  by (simp add: stability_loop_Stable set_py_range_one stability_criterion_def)

lemma slope_rejects_Inr:
  "slope_rejects points st ps i = Inr b \<Longrightarrow> b = (\<not> slope_criterion points st ps i)"
  by (auto simp: slope_rejects_def slope_degrees_def slope_criterion_def split: if_splits)

lemma slope_rejects_nonzero:
  "ps \<noteq> 0 \<Longrightarrow> slope_rejects points st ps i = Inr (\<not> slope_criterion points st ps i)"
  by (auto simp: slope_rejects_def slope_degrees_def slope_criterion_def)

lemma slope_rejects_error:
  "slope_rejects points st ps i = Inl e \<Longrightarrow> e = ZeroDivisionError \<and> ps = 0 \<and> 0 < i"
  by (auto simp: slope_rejects_def slope_degrees_def split: if_splits)

lemma scan_SomeD:
  "scan points re ht st mc ps sd pid rd is = Inr (Some bp) \<Longrightarrow>
   \<exists>pre i post. is = pre @ i # post \<and> qualifies points re ht st mc ps i \<and>
     (\<forall>k\<in>set pre. \<not> qualifies points re ht st mc ps k) \<and>
     bp = bank_at points re sd pid rd i"
proof (induction "is")
  case Nil
  then show ?case by simp
next
  case (Cons i "is")
  let ?q = "qualifies points re ht st mc ps"
  from Cons.prems have len: "i < length points" by (simp split: if_splits)
  show ?case
  proof (cases "?q i")
    case True
    then have h: "\<not> elevation (points ! i) - re < ht"
      by (simp add: qualifies_def height_criterion_def)
    from Cons.prems len h obtain b where b: "slope_rejects points st ps i = Inr b"
      by (cases "slope_rejects points st ps i") auto
    from slope_rejects_Inr [OF b] True have "\<not> b" by (simp add: qualifies_def)
    moreover from True have "stability_loop points re ht i (py_range 1 mc) = Stable"
      by (simp add: qualifies_def stability_loop_criterion)
    ultimately have "bp = bank_at points re sd pid rd i"
      using Cons.prems len h b by (simp add: bank_at_def)
    with True have "i # is = [] @ i # is \<and> ?q i \<and> (\<forall>k\<in>set []. \<not> ?q k) \<and>
        bp = bank_at points re sd pid rd i" by simp
    then show ?thesis by blast
  next
    case False
    have "scan points re ht st mc ps sd pid rd is = Inr (Some bp)"
    proof (cases "elevation (points ! i) - re < ht")
      case True
      with Cons.prems len show ?thesis by simp
    next
      case h: False
      from Cons.prems len h obtain b where b: "slope_rejects points st ps i = Inr b"
        by (cases "slope_rejects points st ps i") auto
      show ?thesis
      proof (cases b)
        case True
        with Cons.prems len h b show ?thesis by simp
      next
        case nb: False
        with slope_rejects_Inr [OF b] have "slope_criterion points st ps i" by simp
        with False len h have "stability_loop points re ht i (py_range 1 mc) \<noteq> Stable"
          by (simp add: qualifies_def height_criterion_def stability_loop_criterion)
        with Cons.prems len h b nb show ?thesis by simp
      qed
    qed
    from Cons.IH [OF this] obtain pre j post where
      "is = pre @ j # post" "?q j" "\<forall>k\<in>set pre. \<not> ?q k" "bp = bank_at points re sd pid rd j"
      by blast
    with False have "i # is = (i # pre) @ j # post \<and> ?q j \<and> (\<forall>k\<in>set (i # pre). \<not> ?q k) \<and>
        bp = bank_at points re sd pid rd j" by simp
    then show ?thesis by blast
  qed
qed

lemma scan_reject:
  assumes "ps \<noteq> 0" "i < length points" "\<not> qualifies points re ht st mc ps i"
  shows "scan points re ht st mc ps sd pid rd (i # is) = scan points re ht st mc ps sd pid rd is"
  using assms
  by (auto simp: slope_rejects_nonzero qualifies_def height_criterion_def
      stability_loop_criterion split: bool.splits)

lemma scan_accept:
  assumes "ps \<noteq> 0" "qualifies points re ht st mc ps i"
  shows "scan points re ht st mc ps sd pid rd (i # is) = Inr (Some (bank_at points re sd pid rd i))"
  using assms
  by (auto simp: slope_rejects_nonzero qualifies_def height_criterion_def
      stability_loop_criterion bank_at_def)

lemma scan_first:
  assumes "ps \<noteq> 0" "\<forall>k\<in>set pre. k < length points \<and> \<not> qualifies points re ht st mc ps k"
    "qualifies points re ht st mc ps i"
  shows "scan points re ht st mc ps sd pid rd (pre @ i # post)
         = Inr (Some (bank_at points re sd pid rd i))"
  using assms(2)
proof (induction pre)
  case Nil
  show ?case using scan_accept [OF assms(1,3)] by simp
next
  case (Cons k pre)
  then show ?case using scan_reject [OF assms(1)] by simp
qed

lemma scan_none:
  assumes "ps \<noteq> 0" "\<forall>k\<in>set is. k < length points \<and> \<not> qualifies points re ht st mc ps k"
  shows "scan points re ht st mc ps sd pid rd is = Inr None"
  using assms(2)
proof (induction "is")
  case Nil
  show ?case by simp
next
  case (Cons k "is")
  then show ?case using scan_reject [OF assms(1)] by simp
qed

lemma scan_no_IndexError:
  "\<forall>k\<in>set is. k < length points \<Longrightarrow> scan points re ht st mc ps sd pid rd is \<noteq> Inl IndexError"
proof (induction "is")
  case Nil
  show ?case by simp
next
  case (Cons k "is")
  then show ?case
    by (auto split: sum.splits bool.splits dest: slope_rejects_error)
qed

lemma upt_split:
  assumes "[0..<n] = pre @ i # post"
  shows "pre = [0..<i] \<and> i < n \<and> post = [Suc i..<n]"
proof -
  have l: "length pre < n" using arg_cong [OF assms, of length] by simp
  have "[0..<n] ! length pre = i" using assms by simp
  then have i: "i = length pre" using l by simp
  have "take i [0..<n] = pre" using assms i by simp
  moreover have "drop (Suc i) [0..<n] = post" using assms i by simp
  ultimately show ?thesis using l i by auto
qed

lemma in_scan_range:
  assumes "qualifies points re ht st mc ps i"
  shows "int i < int (length points) - mc + 1"
proof (cases "2 \<le> mc")
  case True
  then have "1 \<le> nat (mc - 1) \<and> int (nat (mc - 1)) < mc" by simp
  with assms have "i + nat (mc - 1) < length points"
    unfolding qualifies_def stability_criterion_def by blast
  with True show ?thesis by linarith
next
  case False
  with assms show ?thesis by (simp add: qualifies_def)
qed

lemma find_SomeD:
  assumes "find_bedrock_on_side points re ht st mc ps sd pid rd = Inr (Some bp)"
  shows "\<exists>i. qualifies points re ht st mc ps i \<and>
             (\<forall>k<i. \<not> qualifies points re ht st mc ps k) \<and>
             bp = bank_at points re sd pid rd i"
proof -
  from scan_SomeD [OF assms [unfolded find_bedrock_on_side_def]]
  obtain pre i post where
    s: "py_range 0 (int (length points) - mc + 1) = pre @ i # post"
    and q: "qualifies points re ht st mc ps i"
    and n: "\<forall>k\<in>set pre. \<not> qualifies points re ht st mc ps k"
    and b: "bp = bank_at points re sd pid rd i"
    by blast
  from s have "pre = [0..<i]" using upt_split by (simp add: py_range_def)
  with n have "\<forall>k<i. \<not> qualifies points re ht st mc ps k" by simp
  with q b show ?thesis by blast
qed

lemma find_first:
  assumes ps: "ps \<noteq> 0"
    and q: "qualifies points re ht st mc ps i"
    and n: "\<forall>k<i. \<not> qualifies points re ht st mc ps k"
  shows "find_bedrock_on_side points re ht st mc ps sd pid rd
         = Inr (Some (bank_at points re sd pid rd i))"
proof -
  let ?n = "nat (int (length points) - mc + 1)"
  from in_scan_range [OF q] have "i < ?n" by simp
  then have "[0..<?n] = [0..<i] @ [i..<?n]"
    using upt_add_eq_append [of 0 i "?n - i"] by simp
  with \<open>i < ?n\<close> have split: "[0..<?n] = [0..<i] @ i # [Suc i..<?n]"
    by (simp add: upt_conv_Cons)
  from q have "i < length points" by (simp add: qualifies_def)
  with n have "\<forall>k\<in>set [0..<i]. k < length points \<and> \<not> qualifies points re ht st mc ps k"
    by simp
  from scan_first [OF ps this q] show ?thesis
    by (simp add: find_bedrock_on_side_def py_range_def split)
qed

lemma find_none:
  assumes ps: "ps \<noteq> 0" and mc: "1 \<le> mc"
    and n: "\<forall>k. \<not> qualifies points re ht st mc ps k"
  shows "find_bedrock_on_side points re ht st mc ps sd pid rd = Inr None"
proof -
  have "\<forall>k\<in>set (py_range 0 (int (length points) - mc + 1)).
          k < length points \<and> \<not> qualifies points re ht st mc ps k"
    using mc n by (auto simp: set_py_range_zero)
  from scan_none [OF ps this] show ?thesis by (simp add: find_bedrock_on_side_def)
qed

lemma stability_loop_RanOut:
  "stability_loop points re ht i js = RanOut \<Longrightarrow> \<exists>j\<in>set js. length points \<le> i + j"
  by (induction js) (auto split: if_splits)

lemma elevation_nth_cong:
  assumes "map elevation xs = map elevation ys"
  shows "length xs = length ys" and "k < length xs \<Longrightarrow> elevation (xs ! k) = elevation (ys ! k)"
proof -
  show l: "length xs = length ys" using assms by (rule map_eq_imp_length_eq)
  assume k: "k < length xs"
  have "map elevation xs ! k = map elevation ys ! k" using assms by simp
  with k l show "elevation (xs ! k) = elevation (ys ! k)" by simp
qed

lemma stability_loop_cong:
  assumes "map elevation xs = map elevation ys"
  shows "stability_loop xs re ht i js = stability_loop ys re ht i js"
  using elevation_nth_cong [OF assms]
  by (induction js) auto

lemma slope_rejects_cong:
  assumes "map elevation xs = map elevation ys" "i < length xs"
  shows "slope_rejects xs st ps i = slope_rejects ys st ps i"
proof -
  have "elevation (xs ! i) = elevation (ys ! i)"
    using elevation_nth_cong(2) [OF assms(1)] assms(2) by simp
  moreover have "0 < i \<Longrightarrow> elevation (xs ! (i - 1)) = elevation (ys ! (i - 1))"
    using elevation_nth_cong(2) [OF assms(1), of "i - 1"] assms(2) by simp
  ultimately show ?thesis by (simp add: slope_rejects_def)
qed

lemma scan_step:
  assumes "i < length points"
  shows "elevation (points ! i) - re < ht \<Longrightarrow>
           scan points re ht st mc ps sd pid rd (i # is) = scan points re ht st mc ps sd pid rd is"
    and "\<not> elevation (points ! i) - re < ht \<Longrightarrow> slope_rejects points st ps i = Inl e \<Longrightarrow>
           scan points re ht st mc ps sd pid rd (i # is) = Inl e"
    and "\<not> elevation (points ! i) - re < ht \<Longrightarrow> slope_rejects points st ps i = Inr True \<Longrightarrow>
           scan points re ht st mc ps sd pid rd (i # is) = scan points re ht st mc ps sd pid rd is"
    and "\<not> elevation (points ! i) - re < ht \<Longrightarrow> slope_rejects points st ps i = Inr False \<Longrightarrow>
           stability_loop points re ht i (py_range 1 mc) \<noteq> Stable \<Longrightarrow>
           scan points re ht st mc ps sd pid rd (i # is) = scan points re ht st mc ps sd pid rd is"
    and "\<not> elevation (points ! i) - re < ht \<Longrightarrow> slope_rejects points st ps i = Inr False \<Longrightarrow>
           stability_loop points re ht i (py_range 1 mc) = Stable \<Longrightarrow>
           scan points re ht st mc ps sd pid rd (i # is)
           = Inr (Some (bank_at points re sd pid rd i))"
  using assms by (simp_all add: bank_at_def)

lemma scan_mirror:
  assumes "map elevation xs = map elevation ys"
  shows "(\<exists>e. scan xs re ht st mc ps sdl pid rd is = Inl e \<and>
              scan ys re ht st mc ps sdr pid rd is = Inl e)
       \<or> (scan xs re ht st mc ps sdl pid rd is = Inr None \<and>
           scan ys re ht st mc ps sdr pid rd is = Inr None)
       \<or> (\<exists>i<length xs.
              scan xs re ht st mc ps sdl pid rd is = Inr (Some (bank_at xs re sdl pid rd i)) \<and>
              scan ys re ht st mc ps sdr pid rd is = Inr (Some (bank_at ys re sdr pid rd i)))"
proof (induction "is")
  case Nil
  show ?case by simp
next
  case (Cons i "is")
  note l = elevation_nth_cong(1) [OF assms]
  show ?case
  proof (cases "i < length xs")
    case False
    with l show ?thesis by simp
  next
    case True
    then have iy: "i < length ys" using l by simp
    note e = elevation_nth_cong(2) [OF assms True]
    note s = slope_rejects_cong [OF assms True, of st ps]
    note t = stability_loop_cong [OF assms, of re ht i "py_range 1 mc"]
    show ?thesis
    proof (cases "elevation (xs ! i) - re < ht")
      case h: True
      then have h': "elevation (ys ! i) - re < ht" using e by simp
      show ?thesis
        unfolding scan_step(1) [OF True h] scan_step(1) [OF iy h'] by (rule Cons.IH)
    next
      case h: False
      then have h': "\<not> elevation (ys ! i) - re < ht" using e by simp
      show ?thesis
      proof (cases "slope_rejects xs st ps i")
        case (Inl err)
        then have "slope_rejects ys st ps i = Inl err" using s by simp
        from scan_step(2) [OF True h Inl] scan_step(2) [OF iy h' this]
        show ?thesis by blast
      next
        case (Inr b)
        then have sy: "slope_rejects ys st ps i = Inr b" using s by simp
        show ?thesis
        proof (cases b)
          case True
          from Inr sy True have sx: "slope_rejects xs st ps i = Inr True"
            and sy': "slope_rejects ys st ps i = Inr True" by simp_all
          show ?thesis
            unfolding scan_step(3) [OF \<open>i < length xs\<close> h sx]
              scan_step(3) [OF iy h' sy'] by (rule Cons.IH)
        next
          case False
          from Inr sy False have sx: "slope_rejects xs st ps i = Inr False"
            and sy': "slope_rejects ys st ps i = Inr False" by simp_all
          show ?thesis
          proof (cases "stability_loop xs re ht i (py_range 1 mc) = Stable")
            case st: True
            then have st': "stability_loop ys re ht i (py_range 1 mc) = Stable"
              using t by simp
            from scan_step(5) [OF \<open>i < length xs\<close> h sx st] scan_step(5) [OF iy h' sy' st']
              \<open>i < length xs\<close>
            show ?thesis by blast
          next
            case st: False
            then have st': "stability_loop ys re ht i (py_range 1 mc) \<noteq> Stable"
              using t by simp
            show ?thesis
              unfolding scan_step(4) [OF \<open>i < length xs\<close> h sx st]
                scan_step(4) [OF iy h' sy' st'] by (rule Cons.IH)
          qed
        qed
      qed
    qed
  qed
qed

lemma find_total:
  assumes "ps \<noteq> 0" "1 \<le> mc"
  shows "find_bedrock_on_side points re ht st mc ps sd pid rd = Inr None
       \<or> (\<exists>i. find_bedrock_on_side points re ht st mc ps sd pid rd
               = Inr (Some (bank_at points re sd pid rd i)))"
proof (cases "\<exists>k. qualifies points re ht st mc ps k")
  case True
  define n where "n = (LEAST k. qualifies points re ht st mc ps k)"
  from True have "qualifies points re ht st mc ps n"
    unfolding n_def by (metis LeastI)
  moreover have "\<forall>k<n. \<not> qualifies points re ht st mc ps k"
    unfolding n_def using not_less_Least by blast
  ultimately show ?thesis using find_first [OF assms(1)] by blast
next
  case False
  then show ?thesis using find_none [OF assms] by blast
qed

lemma sides_symmetric:
  assumes len: "length pp = 2 * a + 1"
    and sym: "\<forall>k\<le>a. elevation (pp ! (a - k)) = elevation (pp ! (a + k))"
  shows "map elevation (left_side pp a) = map elevation (right_side pp a)"
proof (rule nth_equalityI)
  show "length (map elevation (left_side pp a)) = length (map elevation (right_side pp a))"
    using len by (simp add: left_side_def right_side_def)
next
  fix i assume "i < length (map elevation (left_side pp a))"
  then have i: "i < a" using len by (simp add: left_side_def)
  then have "rev (take a pp) ! i = pp ! (a - Suc i)"
    using len by (simp add: rev_nth)
  moreover have "drop (a + 1) pp ! i = pp ! (a + Suc i)"
    using len i by simp
  moreover have "elevation (pp ! (a - Suc i)) = elevation (pp ! (a + Suc i))"
    using sym i by simp
  ultimately show "map elevation (left_side pp a) ! i = map elevation (right_side pp a) ! i"
    using len i by (simp add: left_side_def right_side_def)
qed

lemma side_nth:
  assumes "length pp = 2 * a + 1" "i < a"
  shows "left_side pp a ! i = pp ! (a - 1 - i)" "right_side pp a ! i = pp ! (a + 1 + i)"
  using assms by (simp_all add: left_side_def right_side_def rev_nth)

lemma find_mirror:
  assumes len: "length pp = 2 * a + 1"
    and sym: "\<forall>k\<le>a. elevation (pp ! (a - k)) = elevation (pp ! (a + k))"
  shows "(\<exists>e. find_bedrock_on_side (left_side pp a) re ht st mc ps sdl pid rd = Inl e \<and>
              find_bedrock_on_side (right_side pp a) re ht st mc ps sdr pid rd = Inl e)
       \<or> (find_bedrock_on_side (left_side pp a) re ht st mc ps sdl pid rd = Inr None \<and>
           find_bedrock_on_side (right_side pp a) re ht st mc ps sdr pid rd = Inr None)
       \<or> (\<exists>i<a.
              find_bedrock_on_side (left_side pp a) re ht st mc ps sdl pid rd
                = Inr (Some (bank_at (left_side pp a) re sdl pid rd i)) \<and>
              find_bedrock_on_side (right_side pp a) re ht st mc ps sdr pid rd
                = Inr (Some (bank_at (right_side pp a) re sdr pid rd i)))"
proof -
  note m = sides_symmetric [OF len sym]
  have la: "length (left_side pp a) = a" using len by (simp add: left_side_def)
  have ra: "length (right_side pp a) = a" using len by (simp add: right_side_def)
  show ?thesis
    using scan_mirror [OF m, of re ht st mc ps sdl pid rd "py_range 0 (int a - mc + 1)" sdr]
    unfolding find_bedrock_on_side_def la ra .
qed

lemma bank_at_sides:
  assumes len: "length pp = 2 * a + 1"
    and sym: "\<forall>k\<le>a. elevation (pp ! (a - k)) = elevation (pp ! (a + k))"
    and i: "i < a"
  shows "bank_at (left_side pp a) re sdl pid rd i
         = \<lparr> bp_point = point (pp ! (a - 1 - i)),
             bp_elevation = elevation (pp ! (a + 1 + i)),
             height_diff = elevation (pp ! (a + 1 + i)) - re,
             side = sdl, bp_profile_id = pid, distance_along = rd \<rparr>"
    and "bank_at (right_side pp a) re sdr pid rd i
         = \<lparr> bp_point = point (pp ! (a + 1 + i)),
             bp_elevation = elevation (pp ! (a + 1 + i)),
             height_diff = elevation (pp ! (a + 1 + i)) - re,
             side = sdr, bp_profile_id = pid, distance_along = rd \<rparr>"
proof -
  have "elevation (pp ! (a - Suc i)) = elevation (pp ! (a + Suc i))"
    using sym i by simp
  then have e: "elevation (pp ! (a - 1 - i)) = elevation (pp ! (a + 1 + i))" by simp
  show "bank_at (left_side pp a) re sdl pid rd i
         = \<lparr> bp_point = point (pp ! (a - 1 - i)),
             bp_elevation = elevation (pp ! (a + 1 + i)),
             height_diff = elevation (pp ! (a + 1 + i)) - re,
             side = sdl, bp_profile_id = pid, distance_along = rd \<rparr>"
    unfolding bank_at_def side_nth(1) [OF len i] e ..
  show "bank_at (right_side pp a) re sdr pid rd i
         = \<lparr> bp_point = point (pp ! (a + 1 + i)),
             bp_elevation = elevation (pp ! (a + 1 + i)),
             height_diff = elevation (pp ! (a + 1 + i)) - re,
             side = sdr, bp_profile_id = pid, distance_along = rd \<rparr>"
    unfolding bank_at_def side_nth(2) [OF len i] ..
qed

section \<open>A slope of the worked example\<close>

lemma arctan_three_tenths: "pi / 16 < arctan (3 / 10)"
proof -
  have a: "2 * arctan (3/10 :: real) = arctan (60 / 91)"
    using arctan_double [of "3/10"] by (simp add: power2_eq_square)
  have b: "2 * arctan (60/91 :: real) = arctan (10920 / 4681)"
    using arctan_double [of "60/91"] by (simp add: power2_eq_square)
  have "arctan 1 < arctan (10920 / 4681 :: real)"
    by (simp add: arctan_less_iff)
  then have "pi / 4 < 4 * arctan (3 / 10)"
    using a b by (simp add: arctan_one)
  then show ?thesis by simp
qed

lemma slope_example: "8 \<le> degrees (arctan (3 / 10))"
proof -
  have "8 * pi \<le> 180 * (pi / 16)" by simp
  also have "\<dots> \<le> 180 * arctan (3 / 10)" using arctan_three_tenths by simp
  finally show ?thesis by (simp add: degrees_def field_simps)
qed

text \<open>
  C2. Anchor elevation 100, side samples with elevations 101, 102, 106.5, 107, 107.2,
  107.5 at a spacing of 15, height threshold 3, slope threshold 8 degrees and
  \<open>min_consecutive = 3\<close>: the classifier returns the sample at index 2, with elevation
  106.5 and height above the anchor 6.5, whatever the positions, offsets, side tag,
  transect id and along-river distance are.
\<close>

theorem C2_worked_example:
  "find_bedrock_on_side
     [\<lparr>point = p0, elevation = 101, distance = d0, profile_id = q0\<rparr>,
      \<lparr>point = p1, elevation = 102, distance = d1, profile_id = q1\<rparr>,
      \<lparr>point = p2, elevation = 106.5, distance = d2, profile_id = q2\<rparr>,
      \<lparr>point = p3, elevation = 107, distance = d3, profile_id = q3\<rparr>,
      \<lparr>point = p4, elevation = 107.2, distance = d4, profile_id = q4\<rparr>,
      \<lparr>point = p5, elevation = 107.5, distance = d5, profile_id = q5\<rparr>]
     100 3 8 3 15 sd pid rd
   = Inr (Some \<lparr>bp_point = p2, bp_elevation = 106.5, height_diff = 6.5, side = sd,
                 bp_profile_id = pid, distance_along = rd\<rparr>)"
proof -
  have s: "\<not> degrees (arctan (3 / 10)) < 8" using slope_example by simp
  have r: "py_range 0 (int (length [a, b, c, d, e, f :: sample]) - 3 + 1) = [0, 1, 2, 3]"
    for a b c d e f
    by (simp add: py_range_def upt_rec)
  have r1: "py_range 1 3 = [1, 2]" by (simp add: py_range_def upt_rec)
  show ?thesis
    unfolding find_bedrock_on_side_def r
    by (simp add: slope_rejects_def slope_degrees_def s r1)
qed

section \<open>The classifier returns the first qualifying sample\<close>

text \<open>
  C1. When the classifier returns a BankPoint for a side, it is made of the sample at
  the smallest scan index that passes the height criterion, the slope criterion (not
  checked at index 0) and the stability criterion, and it carries the height above the
  anchor, the side tag, the transect id and the along-river distance handed in.
  Conversely, with a non-zero sample spacing, the sample at the smallest qualifying
  index is what the classifier returns: no earlier and no later index.
\<close>

theorem C1_first_qualifying_index:
  "(find_bedrock_on_side points re ht st mc ps sd pid rd = Inr (Some bp) \<longrightarrow>
      (\<exists>i. qualifies points re ht st mc ps i \<and>
           (\<forall>k<i. \<not> qualifies points re ht st mc ps k) \<and>
           bp = \<lparr> bp_point = point (points ! i), bp_elevation = elevation (points ! i),
                  height_diff = elevation (points ! i) - re, side = sd,
                  bp_profile_id = pid, distance_along = rd \<rparr>))
   \<and> (ps \<noteq> 0 \<and> qualifies points re ht st mc ps n \<and>
        (\<forall>k<n. \<not> qualifies points re ht st mc ps k) \<longrightarrow>
      find_bedrock_on_side points re ht st mc ps sd pid rd
      = Inr (Some \<lparr> bp_point = point (points ! n), bp_elevation = elevation (points ! n),
                     height_diff = elevation (points ! n) - re, side = sd,
                     bp_profile_id = pid, distance_along = rd \<rparr>))"
proof (intro conjI impI)
  assume "find_bedrock_on_side points re ht st mc ps sd pid rd = Inr (Some bp)"
  from find_SomeD [OF this] show "\<exists>i. qualifies points re ht st mc ps i \<and>
           (\<forall>k<i. \<not> qualifies points re ht st mc ps k) \<and>
           bp = \<lparr> bp_point = point (points ! i), bp_elevation = elevation (points ! i),
                  height_diff = elevation (points ! i) - re, side = sd,
                  bp_profile_id = pid, distance_along = rd \<rparr>"
    unfolding bank_at_def .
next
  assume a: "ps \<noteq> 0 \<and> qualifies points re ht st mc ps n \<and>
        (\<forall>k<n. \<not> qualifies points re ht st mc ps k)"
  then have "find_bedrock_on_side points re ht st mc ps sd pid rd
         = Inr (Some (bank_at points re sd pid rd n))"
    using find_first by blast
  then show "find_bedrock_on_side points re ht st mc ps sd pid rd
      = Inr (Some \<lparr> bp_point = point (points ! n), bp_elevation = elevation (points ! n),
                     height_diff = elevation (points ! n) - re, side = sd,
                     bp_profile_id = pid, distance_along = rd \<rparr>)"
    unfolding bank_at_def .
qed

theorem C1_first_qualifying_index_witness:
  "find_bedrock_on_side
     [\<lparr>point = (0, 0), elevation = 1, distance = 0, profile_id = 7\<rparr>,
      \<lparr>point = (1, 0), elevation = 5, distance = 1, profile_id = 7\<rparr>]
     0 3 0 1 1 ''right'' 7 2
   = Inr (Some \<lparr> bp_point = (1, 0), bp_elevation = 5, height_diff = 5, side = ''right'',
                  bp_profile_id = 7, distance_along = 2 \<rparr>)
   \<and> (\<exists>i. qualifies
          [\<lparr>point = (0, 0), elevation = 1, distance = 0, profile_id = 7\<rparr>,
           \<lparr>point = (1, 0), elevation = 5, distance = 1, profile_id = 7\<rparr>] 0 3 0 1 1 i)"
proof -
  let ?pts = "[\<lparr>point = (0, 0), elevation = 1, distance = 0, profile_id = 7\<rparr>,
      \<lparr>point = (1, 0), elevation = 5, distance = 1, profile_id = 7\<rparr>]"
  have q1: "qualifies ?pts 0 3 0 1 1 1"
    by (simp add: qualifies_def height_criterion_def slope_criterion_def
        stability_criterion_def degrees_def)
  have q0: "\<forall>k<1. \<not> qualifies ?pts 0 3 0 1 1 k"
    by (simp add: qualifies_def height_criterion_def)
  have f: "find_bedrock_on_side ?pts 0 3 0 1 1 ''right'' 7 2
   = Inr (Some \<lparr> bp_point = (1, 0), bp_elevation = 5, height_diff = 5, side = ''right'',
                  bp_profile_id = 7, distance_along = 2 \<rparr>)"
    using C1_first_qualifying_index [of ?pts 0 3 0 1 1 "''right''" 7 2 undefined 1] q1 q0
    by simp
  from C1_first_qualifying_index [of ?pts 0 3 0 1 1 "''right''" 7 2
      "\<lparr> bp_point = (1, 0), bp_elevation = 5, height_diff = 5, side = ''right'',
                  bp_profile_id = 7, distance_along = 2 \<rparr>" 1] f
  have "\<exists>i. qualifies ?pts 0 3 0 1 1 i" by blast
  with f show ?thesis by blast
qed

section \<open>The stability window\<close>

text \<open>
  C3. A returned BankPoint is the sample at an index \<open>i\<close> that is followed by at least
  \<open>min_consecutive - 1\<close> further samples of the side, each of which passes the height
  criterion; a candidate with fewer samples after it is never accepted. Consequently,
  for \<open>min_consecutive \<ge> 1\<close> and a non-zero spacing, when every sample that passes the
  height criterion has, within the \<open>min_consecutive - 1\<close> positions after it, a missing
  sample or one below the threshold, the classifier returns no bank for the side.
\<close>

theorem C3_stability_window:
  "(find_bedrock_on_side points re ht st mc ps sd pid rd = Inr (Some bp) \<longrightarrow>
      (\<exists>i. bp = bank_at points re sd pid rd i \<and>
           int i + (mc - 1) < int (length points) \<and>
           (\<forall>j. 1 \<le> j \<and> int j < mc \<longrightarrow> height_criterion points re ht (i + j))))
   \<and> (ps \<noteq> 0 \<and> 1 \<le> mc \<and>
        (\<forall>i<length points. height_criterion points re ht i \<longrightarrow>
           (\<exists>j. 1 \<le> j \<and> int j < mc \<and>
                (length points \<le> i + j \<or> \<not> height_criterion points re ht (i + j)))) \<longrightarrow>
      find_bedrock_on_side points re ht st mc ps sd pid rd = Inr None)"
proof (intro conjI impI)
  assume "find_bedrock_on_side points re ht st mc ps sd pid rd = Inr (Some bp)"
  from find_SomeD [OF this] obtain i where
    q: "qualifies points re ht st mc ps i" and b: "bp = bank_at points re sd pid rd i"
    by blast
  from in_scan_range [OF q] have "int i + (mc - 1) < int (length points)" by simp
  moreover from q have "\<forall>j. 1 \<le> j \<and> int j < mc \<longrightarrow> height_criterion points re ht (i + j)"
    by (simp add: qualifies_def stability_criterion_def)
  ultimately show "\<exists>i. bp = bank_at points re sd pid rd i \<and>
           int i + (mc - 1) < int (length points) \<and>
           (\<forall>j. 1 \<le> j \<and> int j < mc \<longrightarrow> height_criterion points re ht (i + j))"
    using b by blast
next
  assume a: "ps \<noteq> 0 \<and> 1 \<le> mc \<and>
        (\<forall>i<length points. height_criterion points re ht i \<longrightarrow>
           (\<exists>j. 1 \<le> j \<and> int j < mc \<and>
                (length points \<le> i + j \<or> \<not> height_criterion points re ht (i + j))))"
  have "\<not> qualifies points re ht st mc ps k" for k
  proof
    assume q: "qualifies points re ht st mc ps k"
    then have "k < length points" "height_criterion points re ht k"
      by (simp_all add: qualifies_def)
    with a obtain j where j: "1 \<le> j" "int j < mc"
      "length points \<le> k + j \<or> \<not> height_criterion points re ht (k + j)" by blast
    from q j(1,2) have "k + j < length points \<and> height_criterion points re ht (k + j)"
      unfolding qualifies_def stability_criterion_def by blast
    with j(3) show False by simp
  qed
  with a show "find_bedrock_on_side points re ht st mc ps sd pid rd = Inr None"
    using find_none by blast
qed

theorem C3_stability_window_witness:
  "(\<exists>i. \<lparr> bp_point = (0, 0), bp_elevation = 5, height_diff = 5, side = ''left'',
            bp_profile_id = 7, distance_along = 2 \<rparr>
         = bank_at [\<lparr>point = (0, 0), elevation = 5, distance = 0, profile_id = 7\<rparr>,
                    \<lparr>point = (1, 0), elevation = 5, distance = 1, profile_id = 7\<rparr>]
             0 ''left'' 7 2 i
         \<and> int i + (2 - 1) < 2)
   \<and> find_bedrock_on_side
        [\<lparr>point = (0, 0), elevation = 5, distance = 0, profile_id = 7\<rparr>,
         \<lparr>point = (1, 0), elevation = 1, distance = 1, profile_id = 7\<rparr>]
        0 3 0 2 1 ''left'' 7 2 = Inr None"
proof -
  let ?A = "[\<lparr>point = (0, 0), elevation = 5, distance = 0, profile_id = 7\<rparr>,
             \<lparr>point = (1, 0), elevation = 5, distance = 1, profile_id = 7\<rparr>]"
  let ?B = "[\<lparr>point = (0, 0), elevation = 5, distance = 0, profile_id = 7\<rparr>,
             \<lparr>point = (1, 0), elevation = 1, distance = 1, profile_id = 7\<rparr>]"
  let ?bp = "\<lparr> bp_point = (0, 0), bp_elevation = 5, height_diff = 5, side = ''left'',
            bp_profile_id = 7, distance_along = 2 \<rparr>"
  have f: "find_bedrock_on_side ?A 0 3 0 2 1 ''left'' 7 2 = Inr (Some ?bp)"
    by (simp add: find_bedrock_on_side_def py_range_def upt_rec slope_rejects_def)
  have h: "\<forall>i<length ?B. height_criterion ?B 0 3 i \<longrightarrow>
           (\<exists>j. 1 \<le> j \<and> int j < 2 \<and>
                (length ?B \<le> i + j \<or> \<not> height_criterion ?B 0 3 (i + j)))"
  proof (intro allI impI)
    fix i assume "i < length ?B" "height_criterion ?B 0 3 i"
    then have "i = 0" by (cases i) (simp_all add: height_criterion_def)
    then have "1 \<le> (1::nat) \<and> int 1 < 2 \<and>
                (length ?B \<le> i + 1 \<or> \<not> height_criterion ?B 0 3 (i + 1))"
      by (simp add: height_criterion_def)
    then show "\<exists>j. 1 \<le> j \<and> int j < 2 \<and>
                (length ?B \<le> i + j \<or> \<not> height_criterion ?B 0 3 (i + j))" by blast
  qed
  from C3_stability_window [of ?A 0 3 0 2 1 "''left''" 7 2 ?bp] f
  have a: "\<exists>i. ?bp = bank_at ?A 0 ''left'' 7 2 i \<and> int i + (2 - 1) < 2" by simp
  from C3_stability_window [of ?B 0 3 0 2 1 "''left''" 7 2] h
  have b: "find_bedrock_on_side ?B 0 3 0 2 1 ''left'' 7 2 = Inr None" by simp
  from a b show ?thesis by blast
qed

section \<open>The scan stays inside the side list\<close>

text \<open>
  C10. For \<open>min_consecutive \<ge> 1\<close>, every candidate index \<open>i\<close> of the scan satisfies
  \<open>i + min_consecutive - 1 < len(points)\<close>, so the stability loop never leaves through
  its bounds test; no index is out of range (the classifier never raises IndexError, and
  an empty side gives no bank); and every returned BankPoint is followed by at least
  \<open>min_consecutive - 1\<close> samples.
\<close>

theorem C10_scan_in_bounds:
  assumes mc: "1 \<le> mc"
  shows "(\<forall>i\<in>set (py_range 0 (int (length points) - mc + 1)).
            int i + mc - 1 < int (length points) \<and>
            stability_loop points re ht i (py_range 1 mc) \<noteq> RanOut)
         \<and> find_bedrock_on_side points re ht st mc ps sd pid rd \<noteq> Inl IndexError
         \<and> find_bedrock_on_side [] re ht st mc ps sd pid rd = Inr None
         \<and> (find_bedrock_on_side points re ht st mc ps sd pid rd = Inr (Some bp) \<longrightarrow>
              (\<exists>i. bp = bank_at points re sd pid rd i \<and>
                   i + nat (mc - 1) < length points))"
proof (intro conjI ballI impI)
  fix i assume i: "i \<in> set (py_range 0 (int (length points) - mc + 1))"
  then show b: "int i + mc - 1 < int (length points)"
    by (simp add: set_py_range_zero)
  show "stability_loop points re ht i (py_range 1 mc) \<noteq> RanOut"
  proof
    assume "stability_loop points re ht i (py_range 1 mc) = RanOut"
    from stability_loop_RanOut [OF this] obtain j where
      "j \<in> set (py_range 1 mc)" "length points \<le> i + j" by blast
    with b show False by (simp add: set_py_range_one)
  qed
next
  have "\<forall>k\<in>set (py_range 0 (int (length points) - mc + 1)). k < length points"
    using mc by (auto simp: set_py_range_zero)
  from scan_no_IndexError [OF this]
  show "find_bedrock_on_side points re ht st mc ps sd pid rd \<noteq> Inl IndexError"
    by (simp add: find_bedrock_on_side_def)
next
  show "find_bedrock_on_side [] re ht st mc ps sd pid rd = Inr None"
    using mc by (simp add: find_bedrock_on_side_def py_range_def)
next
  assume "find_bedrock_on_side points re ht st mc ps sd pid rd = Inr (Some bp)"
  from find_SomeD [OF this] obtain i where
    q: "qualifies points re ht st mc ps i" and b: "bp = bank_at points re sd pid rd i"
    by blast
  from in_scan_range [OF q] mc have "i + nat (mc - 1) < length points" by linarith
  with b show "\<exists>i. bp = bank_at points re sd pid rd i \<and> i + nat (mc - 1) < length points"
    by blast
qed

theorem C10_scan_in_bounds_witness:
  "(1::int) \<le> 2
   \<and> find_bedrock_on_side
        [\<lparr>point = (0, 0), elevation = 5, distance = 0, profile_id = 7\<rparr>,
         \<lparr>point = (1, 0), elevation = 5, distance = 1, profile_id = 7\<rparr>]
        0 3 0 2 1 ''left'' 7 2 \<noteq> Inl IndexError
   \<and> (\<exists>i. \<lparr> bp_point = (0, 0), bp_elevation = 5, height_diff = 5, side = ''left'',
              bp_profile_id = 7, distance_along = 2 \<rparr>
           = bank_at [\<lparr>point = (0, 0), elevation = 5, distance = 0, profile_id = 7\<rparr>,
                      \<lparr>point = (1, 0), elevation = 5, distance = 1, profile_id = 7\<rparr>]
               0 ''left'' 7 2 i
           \<and> i + nat (2 - 1) < 2)"
proof -
  let ?A = "[\<lparr>point = (0, 0), elevation = 5, distance = 0, profile_id = 7\<rparr>,
             \<lparr>point = (1, 0), elevation = 5, distance = 1, profile_id = 7\<rparr>]"
  let ?bp = "\<lparr> bp_point = (0, 0), bp_elevation = 5, height_diff = 5, side = ''left'',
            bp_profile_id = 7, distance_along = 2 \<rparr>"
  have m: "(1::int) \<le> 2" by simp
  have f: "find_bedrock_on_side ?A 0 3 0 2 1 ''left'' 7 2 = Inr (Some ?bp)"
    by (simp add: find_bedrock_on_side_def py_range_def upt_rec slope_rejects_def)
  from C10_scan_in_bounds [OF m, of ?A 0 3 0 1 "''left''" 7 2 ?bp] f
  show ?thesis by simp
qed

section \<open>Profiles that are symmetric about the anchor\<close>

text \<open>
  C7. The left side is the samples before the anchor in reversed order, the right side
  the samples after it in their order. For a profile of \<open>2 a + 1\<close> samples whose
  elevations are symmetric about the anchor index \<open>a\<close>, the two classifications agree:
  both raise the same error, or both find no bank, or both return the sample at the
  same scan index \<open>i\<close>, that is the profile samples \<open>a - 1 - i\<close> and \<open>a + 1 + i\<close>, with
  the same elevation and height above the anchor, differing in position and side tag.
  With a non-zero spacing and \<open>min_consecutive \<ge> 1\<close> no error is raised, so only the
  last two cases remain.
\<close>

theorem C7_symmetric_profile:
  assumes len: "length pp = 2 * a + 1"
    and sym: "\<forall>k\<le>a. elevation (pp ! (a - k)) = elevation (pp ! (a + k))"
  shows "((\<exists>e. find_bedrock_on_side (left_side pp a) re ht st mc ps ''left'' pid rd = Inl e \<and>
               find_bedrock_on_side (right_side pp a) re ht st mc ps ''right'' pid rd = Inl e)
        \<or> (find_bedrock_on_side (left_side pp a) re ht st mc ps ''left'' pid rd = Inr None \<and>
            find_bedrock_on_side (right_side pp a) re ht st mc ps ''right'' pid rd = Inr None)
        \<or> (\<exists>i<a. find_bedrock_on_side (left_side pp a) re ht st mc ps ''left'' pid rd
                   = Inr (Some \<lparr> bp_point = point (pp ! (a - 1 - i)),
                                  bp_elevation = elevation (pp ! (a + 1 + i)),
                                  height_diff = elevation (pp ! (a + 1 + i)) - re,
                                  side = ''left'', bp_profile_id = pid,
                                  distance_along = rd \<rparr>) \<and>
                  find_bedrock_on_side (right_side pp a) re ht st mc ps ''right'' pid rd
                   = Inr (Some \<lparr> bp_point = point (pp ! (a + 1 + i)),
                                  bp_elevation = elevation (pp ! (a + 1 + i)),
                                  height_diff = elevation (pp ! (a + 1 + i)) - re,
                                  side = ''right'', bp_profile_id = pid,
                                  distance_along = rd \<rparr>)))
       \<and> (ps \<noteq> 0 \<and> 1 \<le> mc \<longrightarrow>
           (\<forall>e. find_bedrock_on_side (left_side pp a) re ht st mc ps ''left'' pid rd \<noteq> Inl e))"
proof
  from find_mirror [OF len sym, of re ht st mc ps "''left''" pid rd "''right''"]
  show "(\<exists>e. find_bedrock_on_side (left_side pp a) re ht st mc ps ''left'' pid rd = Inl e \<and>
               find_bedrock_on_side (right_side pp a) re ht st mc ps ''right'' pid rd = Inl e)
        \<or> (find_bedrock_on_side (left_side pp a) re ht st mc ps ''left'' pid rd = Inr None \<and>
            find_bedrock_on_side (right_side pp a) re ht st mc ps ''right'' pid rd = Inr None)
        \<or> (\<exists>i<a. find_bedrock_on_side (left_side pp a) re ht st mc ps ''left'' pid rd
                   = Inr (Some \<lparr> bp_point = point (pp ! (a - 1 - i)),
                                  bp_elevation = elevation (pp ! (a + 1 + i)),
                                  height_diff = elevation (pp ! (a + 1 + i)) - re,
                                  side = ''left'', bp_profile_id = pid,
                                  distance_along = rd \<rparr>) \<and>
                  find_bedrock_on_side (right_side pp a) re ht st mc ps ''right'' pid rd
                   = Inr (Some \<lparr> bp_point = point (pp ! (a + 1 + i)),
                                  bp_elevation = elevation (pp ! (a + 1 + i)),
                                  height_diff = elevation (pp ! (a + 1 + i)) - re,
                                  side = ''right'', bp_profile_id = pid,
                                  distance_along = rd \<rparr>))"
  proof (elim disjE exE conjE)
    fix e
    assume "find_bedrock_on_side (left_side pp a) re ht st mc ps ''left'' pid rd = Inl e"
      "find_bedrock_on_side (right_side pp a) re ht st mc ps ''right'' pid rd = Inl e"
    then show ?thesis by blast
  next
    assume "find_bedrock_on_side (left_side pp a) re ht st mc ps ''left'' pid rd = Inr None"
      "find_bedrock_on_side (right_side pp a) re ht st mc ps ''right'' pid rd = Inr None"
    then show ?thesis by blast
  next
    fix i
    assume i: "i < a"
      and "find_bedrock_on_side (left_side pp a) re ht st mc ps ''left'' pid rd
                = Inr (Some (bank_at (left_side pp a) re ''left'' pid rd i))"
      "find_bedrock_on_side (right_side pp a) re ht st mc ps ''right'' pid rd
                = Inr (Some (bank_at (right_side pp a) re ''right'' pid rd i))"
    then show ?thesis
      unfolding bank_at_sides [OF len sym i] using i by blast
  qed
next
  show "ps \<noteq> 0 \<and> 1 \<le> mc \<longrightarrow>
           (\<forall>e. find_bedrock_on_side (left_side pp a) re ht st mc ps ''left'' pid rd \<noteq> Inl e)"
    using find_total [of ps mc "left_side pp a" re ht st "''left''" pid rd] by auto
qed

theorem C7_symmetric_profile_witness:
  "length [\<lparr>point = (0, 0), elevation = 5, distance = 0, profile_id = 7\<rparr>,
           \<lparr>point = (1, 0), elevation = 0, distance = 1, profile_id = 7\<rparr>,
           \<lparr>point = (2, 0), elevation = 5, distance = 2, profile_id = 7\<rparr>] = 2 * 1 + 1
   \<and> elevation ([\<lparr>point = (0, 0), elevation = 5, distance = 0, profile_id = 7\<rparr>,
           \<lparr>point = (1, 0), elevation = 0, distance = 1, profile_id = 7\<rparr>,
           \<lparr>point = (2, 0), elevation = 5, distance = 2, profile_id = 7\<rparr>] ! (1 - 1))
       = elevation ([\<lparr>point = (0, 0), elevation = 5, distance = 0, profile_id = 7\<rparr>,
           \<lparr>point = (1, 0), elevation = 0, distance = 1, profile_id = 7\<rparr>,
           \<lparr>point = (2, 0), elevation = 5, distance = 2, profile_id = 7\<rparr>] ! (1 + 1))
   \<and> (\<forall>e. find_bedrock_on_side
            (left_side [\<lparr>point = (0, 0), elevation = 5, distance = 0, profile_id = 7\<rparr>,
               \<lparr>point = (1, 0), elevation = 0, distance = 1, profile_id = 7\<rparr>,
               \<lparr>point = (2, 0), elevation = 5, distance = 2, profile_id = 7\<rparr>] 1)
            0 3 0 1 1 ''left'' 7 2 \<noteq> Inl e)"
proof -
  let ?pp = "[\<lparr>point = (0, 0), elevation = 5, distance = 0, profile_id = 7\<rparr>,
           \<lparr>point = (1, 0), elevation = 0, distance = 1, profile_id = 7\<rparr>,
           \<lparr>point = (2, 0), elevation = 5, distance = 2, profile_id = 7\<rparr>]"
  have len: "length ?pp = 2 * 1 + 1" by simp
  have sym: "\<forall>k\<le>1. elevation (?pp ! (1 - k)) = elevation (?pp ! (1 + k))"
  proof (intro allI impI)
    fix k :: nat assume "k \<le> 1"
    then have "k = 0 \<or> k = 1" by arith
    then show "elevation (?pp ! (1 - k)) = elevation (?pp ! (1 + k))" by auto
  qed
  from C7_symmetric_profile [OF len sym, where re = 0 and ht = 3 and st = 0 and mc = 1
      and ps = 1 and pid = 7 and rd = 2]
  have "\<forall>e. find_bedrock_on_side (left_side ?pp 1) 0 3 0 1 1 ''left'' 7 2 \<noteq> Inl e"
    by simp
  moreover have "elevation (?pp ! (1 - 1)) = elevation (?pp ! (1 + 1))" by simp
  ultimately show ?thesis using len by blast
qed

section \<open>Profiles with too few samples\<close>

lemma analyze_profile_short:
  "int (length pts) < mc + 1 \<Longrightarrow> analyze_profile g ht st mc ps (pid, pts) = Inr []"
  by (simp add: analyze_profile_def)

lemma analyze_loop_skips_short:
  "analyze_loop g ht st mc ps profs acc
   = analyze_loop g ht st mc ps
       (filter (\<lambda>entry. \<not> int (length (snd entry)) < mc + 1) profs) acc"
proof (induction profs arbitrary: acc)
  case Nil
  show ?case by simp
next
  case (Cons entry profs)
  obtain pid pts where e: "entry = (pid, pts)" by (cases entry)
  show ?case
  proof (cases "int (length pts) < mc + 1")
    case True
    then show ?thesis using Cons.IH [of acc] by (simp add: e analyze_profile_short)
  next
    case False
    then show ?thesis using Cons.IH by (simp add: e split: sum.splits)
  qed
qed

text \<open>
  C5. A profile with fewer than \<open>min_consecutive + 1\<close> samples (NODATA samples are
  never stored in a profile) adds no BankPoint and raises nothing; the loop over the
  profiles gives the same result as on the profiles that are long enough.
\<close>

theorem C5_short_profile_skipped:
  "(int (length pts) < mc + 1 \<longrightarrow> analyze_profile g ht st mc ps (pid, pts) = Inr [])
   \<and> analyze_loop g ht st mc ps profs acc
     = analyze_loop g ht st mc ps
         (filter (\<lambda>entry. \<not> int (length (snd entry)) < mc + 1) profs) acc"
  using analyze_profile_short [of pts mc g ht st ps pid]
    analyze_loop_skips_short [of g ht st mc ps profs acc]
  by simp

theorem C5_short_profile_skipped_witness:
  "int (length [\<lparr>point = (0, 0), elevation = 5, distance = 0, profile_id = 7\<rparr>]) < 3 + 1
   \<and> analyze_profile \<lparr>truthy = True, geom_distance = (\<lambda>p. 0), lineLocatePoint = (\<lambda>p. 0)\<rparr>
        3 8 3 15 (7, [\<lparr>point = (0, 0), elevation = 5, distance = 0, profile_id = 7\<rparr>]) = Inr []"
  using C5_short_profile_skipped
    [of "[\<lparr>point = (0, 0), elevation = 5, distance = 0, profile_id = 7\<rparr>]" 3
      "\<lparr>truthy = True, geom_distance = (\<lambda>p. 0), lineLocatePoint = (\<lambda>p. 0)\<rparr>" 3 8 15 7 "[]" "[]"]
  by simp

section \<open>A run that finds no bank\<close>

text \<open>
  C8. When the analysis produces no BankPoint, \<^verbatim>\<open>detect_bedrock_banks\<close> prints that no
  bedrock banks were detected and returns a new, empty memory layer: a value, not an
  error and not \<^verbatim>\<open>None\<close>.
\<close>

theorem C8_no_banks_empty_layer:
  "analyze_transects_for_bedrock combine points_with_z rivers_layer ht st mc ps = Inr [] \<Longrightarrow>
   detect_bedrock_banks combine build_lines rivers_layer points_with_z output_path ht st ps mc
   = Inr (NoBanksDetected,
          \<lparr> source = ''LineString?crs=EPSG:3857'', layer_name = ''bedrock_banks'',
            provider = ''memory'', layer_features = [] \<rparr>)"
  by (simp add: detect_bedrock_banks_def)

theorem C8_no_banks_empty_layer_witness:
  "analyze_transects_for_bedrock (\<lambda>a b. a) []
     [\<lparr>truthy = True, geom_distance = (\<lambda>p. 0), lineLocatePoint = (\<lambda>p. 0)\<rparr>] 3 8 3 15 = Inr []
   \<and> detect_bedrock_banks (\<lambda>a b. a) (map bp_point)
       [\<lparr>truthy = True, geom_distance = (\<lambda>p. 0), lineLocatePoint = (\<lambda>p. 0)\<rparr>] []
       ''out.gpkg'' 3 8 15 3
     = Inr (NoBanksDetected,
          \<lparr> source = ''LineString?crs=EPSG:3857'', layer_name = ''bedrock_banks'',
            provider = ''memory'', layer_features = [] \<rparr>)"
proof -
  have a: "analyze_transects_for_bedrock (\<lambda>a b. a) []
     [\<lparr>truthy = True, geom_distance = (\<lambda>p. 0), lineLocatePoint = (\<lambda>p. 0)\<rparr>] 3 8 3 15 = Inr []"
    by (simp add: analyze_transects_for_bedrock_def combine_rivers_def group_profiles_def)
  from C8_no_banks_empty_layer [OF a, of "map bp_point" "''out.gpkg''"] a
  show ?thesis by simp
qed

section \<open>What the grouping stores\<close>

lemma keys_ensure_key:
  "map fst (ensure_key k P) = (if k \<in> fst ` set P then map fst P else map fst P @ [k])"
  by (induction k P rule: ensure_key.induct) auto

lemma keys_append_sample: "map fst (append_sample k s P) = map fst P"
  by (induction k s P rule: append_sample.induct) auto

lemma map_of_ensure_key:
  "map_of (ensure_key k P) k' =
     (if k' = k \<and> map_of P k = None then Some [] else map_of P k')"
  by (induction k P rule: ensure_key.induct) auto

lemma map_of_append_sample:
  "map_of (append_sample k s P) k' =
     (if k' = k then map_option (\<lambda>vs. vs @ [s]) (map_of P k) else map_of P k')"
  by (induction k s P rule: append_sample.induct) auto

lemma group_step_sample:
  "has_elevation f \<Longrightarrow>
   group_step P f = append_sample (profile_key f) (sample_of f) (ensure_key (profile_key f) P)"
  by (auto simp: group_step_def has_elevation_def sample_of_def Let_def split: option.splits)

lemma group_step_nodata:
  "\<not> has_elevation f \<Longrightarrow> group_step P f = ensure_key (profile_key f) P"
  by (auto simp: group_step_def has_elevation_def Let_def split: option.splits)

lemma keys_group_step:
  "map fst (group_step P f) =
     (if profile_key f \<in> fst ` set P then map fst P else map fst P @ [profile_key f])"
  by (cases "has_elevation f")
     (simp_all add: group_step_sample group_step_nodata keys_append_sample keys_ensure_key)

lemma stored_group_step:
  "stored (group_step P f) pid =
     stored P pid @ (if profile_key f = pid \<and> has_elevation f then [sample_of f] else [])"
  by (cases "has_elevation f")
     (auto simp: stored_def group_step_sample group_step_nodata map_of_append_sample
        map_of_ensure_key split: option.splits)

lemma keys_foldl_group:
  "fst ` set (foldl group_step P feats) = fst ` set P \<union> profile_key ` set feats"
proof (induction feats arbitrary: P)
  case Nil
  show ?case by simp
next
  case (Cons f feats)
  have "fst ` set (group_step P f) = insert (profile_key f) (fst ` set P)"
    using arg_cong [OF keys_group_step [of P f], of set] by (auto simp flip: set_map)
  then show ?case by (simp add: Cons.IH)
qed

lemma distinct_foldl_group:
  "distinct (map fst P) \<Longrightarrow> distinct (map fst (foldl group_step P feats))"
proof (induction feats arbitrary: P)
  case Nil
  then show ?case by simp
next
  case (Cons f feats)
  from Cons.prems have "distinct (map fst (group_step P f))"
    by (simp add: keys_group_step)
  then show ?case using Cons.IH by simp
qed

lemma stored_foldl_group:
  "stored (foldl group_step P feats) pid =
     stored P pid @
     map sample_of (filter (\<lambda>f. profile_key f = pid \<and> has_elevation f) feats)"
  by (induction feats arbitrary: P) (simp_all add: stored_group_step)

lemma group_profiles_entry:
  assumes "(pid, pts) \<in> set (group_profiles feats)"
  shows "pts = map sample_of (filter (\<lambda>f. profile_key f = pid \<and> has_elevation f) feats)"
proof -
  have "distinct (map fst (group_profiles feats))"
    unfolding group_profiles_def by (rule distinct_foldl_group) simp
  with assms have "map_of (group_profiles feats) pid = Some pts" by simp
  then have "stored (group_profiles feats) pid = pts" by (simp add: stored_def)
  then show ?thesis
    unfolding group_profiles_def stored_foldl_group by (simp add: stored_def)
qed

lemma sample_of_elevation:
  "has_elevation f \<Longrightarrow> elevation (sample_of f) \<noteq> - 9999 \<and> elev_1 f = Some (elevation (sample_of f))"
  by (auto simp: has_elevation_def sample_of_def split: option.splits)

text \<open>
  C6. A sample whose elevation is missing or is the NODATA value -9999 is not stored
  in any profile: each profile holds exactly the samples of the features with its key
  that have an elevation, in input order. So every elevation the analysis reads is the
  elevation of an input feature and is not -9999; no other number stands in for a
  missing one.
\<close>

theorem C6_nodata_excluded:
  assumes "(pid, pts) \<in> set (group_profiles feats)"
  shows "pts = map sample_of (filter (\<lambda>f. profile_key f = pid \<and> has_elevation f) feats)
       \<and> (\<forall>s\<in>set pts. elevation s \<noteq> - 9999 \<and> (\<exists>f\<in>set feats. elev_1 f = Some (elevation s)))"
proof
  show p: "pts = map sample_of (filter (\<lambda>f. profile_key f = pid \<and> has_elevation f) feats)"
    using assms by (rule group_profiles_entry)
  show "\<forall>s\<in>set pts. elevation s \<noteq> - 9999 \<and> (\<exists>f\<in>set feats. elev_1 f = Some (elevation s))"
  proof
    fix s assume "s \<in> set pts"
    with p obtain f where f: "f \<in> set feats" "has_elevation f" "s = sample_of f" by auto
    with sample_of_elevation [OF f(2)]
    show "elevation s \<noteq> - 9999 \<and> (\<exists>f\<in>set feats. elev_1 f = Some (elevation s))" by blast
  qed
qed

theorem C6_nodata_excluded_witness:
  "(7, [\<lparr>point = (0, 0), elevation = 5, distance = 0, profile_id = 7\<rparr>])
     \<in> set (group_profiles
         [\<lparr>TR_ID = Some 7, TR_SEGMENT = None, fid = None, feat_id = 1, geometry = (0, 0),
           elev_1 = Some 5, attr_distance = 0\<rparr>,
          \<lparr>TR_ID = Some 7, TR_SEGMENT = None, fid = None, feat_id = 2, geometry = (1, 0),
           elev_1 = Some (- 9999), attr_distance = 1\<rparr>,
          \<lparr>TR_ID = Some 7, TR_SEGMENT = None, fid = None, feat_id = 3, geometry = (2, 0),
           elev_1 = None, attr_distance = 2\<rparr>])
   \<and> [\<lparr>point = (0, 0), elevation = 5, distance = 0, profile_id = 7\<rparr>]
     = map sample_of (filter (\<lambda>f. profile_key f = 7 \<and> has_elevation f)
         [\<lparr>TR_ID = Some 7, TR_SEGMENT = None, fid = None, feat_id = 1, geometry = (0, 0),
           elev_1 = Some 5, attr_distance = 0\<rparr>,
          \<lparr>TR_ID = Some 7, TR_SEGMENT = None, fid = None, feat_id = 2, geometry = (1, 0),
           elev_1 = Some (- 9999), attr_distance = 1\<rparr>,
          \<lparr>TR_ID = Some 7, TR_SEGMENT = None, fid = None, feat_id = 3, geometry = (2, 0),
           elev_1 = None, attr_distance = 2\<rparr>])"
proof -
  let ?feats = "[\<lparr>TR_ID = Some 7, TR_SEGMENT = None, fid = None, feat_id = 1, geometry = (0, 0),
           elev_1 = Some 5, attr_distance = 0\<rparr>,
          \<lparr>TR_ID = Some 7, TR_SEGMENT = None, fid = None, feat_id = 2, geometry = (1, 0),
           elev_1 = Some (- 9999), attr_distance = 1\<rparr>,
          \<lparr>TR_ID = Some 7, TR_SEGMENT = None, fid = None, feat_id = 3, geometry = (2, 0),
           elev_1 = None, attr_distance = 2\<rparr>]"
  have g: "group_profiles ?feats
           = [(7, [\<lparr>point = (0, 0), elevation = 5, distance = 0, profile_id = 7\<rparr>])]"
    by (simp add: group_profiles_def group_step_def profile_key_def)
  then have m: "(7, [\<lparr>point = (0, 0), elevation = 5, distance = 0, profile_id = 7\<rparr>])
     \<in> set (group_profiles ?feats)" by simp
  from C6_nodata_excluded [OF m] m show ?thesis by blast
qed

section \<open>Keys, partitions and the sort\<close>

lemma profile_key_first_present:
  "profile_key f = first_present [TR_ID f, TR_SEGMENT f, fid f] (feat_id f)"
  by (simp add: profile_key_def split: option.splits)

lemma group_profiles_keys:
  "distinct (map fst (group_profiles feats))"
  "fst ` set (group_profiles feats) = profile_key ` set feats"
  unfolding group_profiles_def
  by (simp_all add: distinct_foldl_group keys_foldl_group)

lemma analyze_profile_sorted:
  "\<not> int (length pts) < mc + 1 \<Longrightarrow>
   analyze_profile g ht st mc ps (pid, pts)
   = analyze_sorted_profile g ht st mc ps pid (sort_key distance pts)"
  by (simp add: analyze_profile_def)

text \<open>
  C9. The key of a feature is the first present value among the transect id, the
  segment id and the row id, else the feature's own id. The grouping has one profile
  per key that occurs, each holding the samples of the features with that key (those
  with an elevation). A profile that is analysed is first sorted ascending by the
  offset along the transect: the analysis runs on the sorted permutation of it.
\<close>

theorem C9_grouping_by_key_and_sort:
  "profile_key f = first_present [TR_ID f, TR_SEGMENT f, fid f] (feat_id f)
   \<and> distinct (map fst (group_profiles feats))
   \<and> fst ` set (group_profiles feats) = profile_key ` set feats
   \<and> (\<forall>entry\<in>set (group_profiles feats).
         snd entry = map sample_of
           (filter (\<lambda>f. profile_key f = fst entry \<and> has_elevation f) feats))
   \<and> (\<not> int (length pts) < mc + 1 \<longrightarrow>
        analyze_profile g ht st mc ps (pid, pts)
        = analyze_sorted_profile g ht st mc ps pid (sort_key distance pts))
   \<and> sorted (map distance (sort_key distance pts))
   \<and> mset (sort_key distance pts) = mset pts"
proof (intro conjI)
  show "profile_key f = first_present [TR_ID f, TR_SEGMENT f, fid f] (feat_id f)"
    by (rule profile_key_first_present)
  show "distinct (map fst (group_profiles feats))" by (rule group_profiles_keys(1))
  show "fst ` set (group_profiles feats) = profile_key ` set feats"
    by (rule group_profiles_keys(2))
  show "\<forall>entry\<in>set (group_profiles feats).
         snd entry = map sample_of
           (filter (\<lambda>f. profile_key f = fst entry \<and> has_elevation f) feats)"
  proof
    fix entry assume "entry \<in> set (group_profiles feats)"
    then have "(fst entry, snd entry) \<in> set (group_profiles feats)" by simp
    then show "snd entry = map sample_of
           (filter (\<lambda>f. profile_key f = fst entry \<and> has_elevation f) feats)"
      by (rule group_profiles_entry)
  qed
  show "\<not> int (length pts) < mc + 1 \<longrightarrow>
        analyze_profile g ht st mc ps (pid, pts)
        = analyze_sorted_profile g ht st mc ps pid (sort_key distance pts)"
    using analyze_profile_sorted by blast
  show "sorted (map distance (sort_key distance pts))" by simp
  show "mset (sort_key distance pts) = mset pts" by simp
qed

theorem C9_grouping_by_key_and_sort_witness:
  "group_profiles
     [\<lparr>TR_ID = None, TR_SEGMENT = Some 4, fid = Some 9, feat_id = 1, geometry = (0, 0),
       elev_1 = Some 5, attr_distance = 2\<rparr>,
      \<lparr>TR_ID = Some 4, TR_SEGMENT = Some 8, fid = None, feat_id = 2, geometry = (1, 0),
       elev_1 = Some 6, attr_distance = 1\<rparr>]
   = [(4, [\<lparr>point = (0, 0), elevation = 5, distance = 2, profile_id = 4\<rparr>,
           \<lparr>point = (1, 0), elevation = 6, distance = 1, profile_id = 4\<rparr>])]
   \<and> \<not> int (length [\<lparr>point = (0, 0), elevation = 5, distance = 2, profile_id = 4\<rparr>,
           \<lparr>point = (1, 0), elevation = 6, distance = 1, profile_id = 4\<rparr>]) < 1 + 1
   \<and> analyze_profile \<lparr>truthy = False, geom_distance = (\<lambda>p. 0), lineLocatePoint = (\<lambda>p. 0)\<rparr>
        3 0 1 1
        (4, [\<lparr>point = (0, 0), elevation = 5, distance = 2, profile_id = 4\<rparr>,
             \<lparr>point = (1, 0), elevation = 6, distance = 1, profile_id = 4\<rparr>])
     = analyze_sorted_profile
         \<lparr>truthy = False, geom_distance = (\<lambda>p. 0), lineLocatePoint = (\<lambda>p. 0)\<rparr> 3 0 1 1 4
         [\<lparr>point = (1, 0), elevation = 6, distance = 1, profile_id = 4\<rparr>,
          \<lparr>point = (0, 0), elevation = 5, distance = 2, profile_id = 4\<rparr>]"
proof -
  let ?feats = "[\<lparr>TR_ID = None, TR_SEGMENT = Some 4, fid = Some 9, feat_id = 1, geometry = (0, 0),
       elev_1 = Some 5, attr_distance = 2\<rparr>,
      \<lparr>TR_ID = Some 4, TR_SEGMENT = Some 8, fid = None, feat_id = 2, geometry = (1, 0),
       elev_1 = Some 6, attr_distance = 1\<rparr>]"
  let ?pts = "[\<lparr>point = (0, 0), elevation = 5, distance = 2, profile_id = 4\<rparr>,
           \<lparr>point = (1, 0), elevation = 6, distance = 1, profile_id = 4\<rparr>]"
  let ?g = "\<lparr>truthy = False, geom_distance = (\<lambda>p. 0), lineLocatePoint = (\<lambda>p. 0)\<rparr>"
  have g: "group_profiles ?feats = [(4, ?pts)]"
    by (simp add: group_profiles_def group_step_def profile_key_def)
  have l: "\<not> int (length ?pts) < 1 + 1" by simp
  have s: "sort_key distance ?pts
           = [\<lparr>point = (1, 0), elevation = 6, distance = 1, profile_id = 4\<rparr>,
              \<lparr>point = (0, 0), elevation = 5, distance = 2, profile_id = 4\<rparr>]"
    by (simp add: sort_key_def)
  from C9_grouping_by_key_and_sort [of _ ?feats ?pts 1 ?g 3 0 1 4] l
  have "analyze_profile ?g 3 0 1 1 (4, ?pts)
        = analyze_sorted_profile ?g 3 0 1 1 4 (sort_key distance ?pts)" by blast
  with g l s show ?thesis by simp
qed

section \<open>The anchor of a profile\<close>

lemma nearest_loop_append:
  "nearest_loop g (xs @ ys) st = nearest_loop g ys (nearest_loop g xs st)"
proof (induction xs arbitrary: st)
  case Nil
  show ?case by simp
next
  case (Cons x xs)
  obtain idx p where x: "x = (idx, p)" by (cases x)
  obtain m r where st: "st = (m, r)" by (cases st)
  show ?case by (simp add: x st Cons.IH Let_def)
qed

lemma nearest_loop_enumerate:
  assumes "pp \<noteq> []"
  shows "\<exists>r. nearest_loop g (List.enumerate 0 pp) (None, r0)
               = (Some (geom_distance g (point (pp ! r))), r)
             \<and> r < length pp
             \<and> (\<forall>j<length pp. geom_distance g (point (pp ! r)) \<le> geom_distance g (point (pp ! j)))
             \<and> (\<forall>j<r. geom_distance g (point (pp ! r)) < geom_distance g (point (pp ! j)))"
  using assms
proof (induction pp rule: rev_induct)
  case Nil
  then show ?case by simp
next
  case (snoc p pp)
  let ?d = "\<lambda>s. geom_distance g (point s)"
  show ?case
  proof (cases "pp = []")
    case True
    then show ?thesis by simp
  next
    case False
    from snoc.IH [OF False] obtain r where
      n: "nearest_loop g (List.enumerate 0 pp) (None, r0) = (Some (?d (pp ! r)), r)"
      and r: "r < length pp"
      and le: "\<forall>j<length pp. ?d (pp ! r) \<le> ?d (pp ! j)"
      and lt: "\<forall>j<r. ?d (pp ! r) < ?d (pp ! j)" by blast
    have e: "List.enumerate 0 (pp @ [p]) = List.enumerate 0 pp @ [(length pp, p)]"
      by (simp add: enumerate_append_eq)
    show ?thesis
    proof (cases "?d p < ?d (pp ! r)")
      case True
      have "nearest_loop g (List.enumerate 0 (pp @ [p])) (None, r0)
            = (Some (?d ((pp @ [p]) ! length pp)), length pp)"
        unfolding e nearest_loop_append n using True by simp
      moreover have "\<forall>j<length (pp @ [p]). ?d ((pp @ [p]) ! length pp) \<le> ?d ((pp @ [p]) ! j)"
      proof (intro allI impI)
        fix j assume "j < length (pp @ [p])"
        then show "?d ((pp @ [p]) ! length pp) \<le> ?d ((pp @ [p]) ! j)"
          using True le by (cases "j < length pp") (auto simp: nth_append less_Suc_eq)
      qed
      moreover have "\<forall>j<length pp. ?d ((pp @ [p]) ! length pp) < ?d ((pp @ [p]) ! j)"
      proof (intro allI impI)
        fix j assume "j < length pp"
        then show "?d ((pp @ [p]) ! length pp) < ?d ((pp @ [p]) ! j)"
          using True le by (auto simp: nth_append)
      qed
      ultimately show ?thesis by (intro exI [of _ "length pp"]) simp
    next
      case False
      have "nearest_loop g (List.enumerate 0 (pp @ [p])) (None, r0)
            = (Some (?d ((pp @ [p]) ! r)), r)"
        unfolding e nearest_loop_append n using False r by (simp add: nth_append)
      moreover have "\<forall>j<length (pp @ [p]). ?d ((pp @ [p]) ! r) \<le> ?d ((pp @ [p]) ! j)"
      proof (intro allI impI)
        fix j assume "j < length (pp @ [p])"
        then show "?d ((pp @ [p]) ! r) \<le> ?d ((pp @ [p]) ! j)"
          using False le r by (cases "j < length pp") (auto simp: nth_append less_Suc_eq)
      qed
      moreover have "\<forall>j<r. ?d ((pp @ [p]) ! r) < ?d ((pp @ [p]) ! j)"
        using lt r by (auto simp: nth_append)
      ultimately show ?thesis using r by (intro exI [of _ r]) simp
    qed
  qed
qed

lemma select_river_idx_nearest:
  assumes "truthy g" "pp \<noteq> []"
  shows "select_river_idx g pp < length pp"
    and "\<forall>j<length pp. geom_distance g (point (pp ! select_river_idx g pp))
                         \<le> geom_distance g (point (pp ! j))"
    and "\<forall>j<select_river_idx g pp. geom_distance g (point (pp ! select_river_idx g pp))
                         < geom_distance g (point (pp ! j))"
proof -
  from nearest_loop_enumerate [OF assms(2), of g "length pp div 2"] obtain r where
    n: "nearest_loop g (List.enumerate 0 pp) (None, length pp div 2)
          = (Some (geom_distance g (point (pp ! r))), r)"
    and r: "r < length pp"
    and le: "\<forall>j<length pp. geom_distance g (point (pp ! r)) \<le> geom_distance g (point (pp ! j))"
    and lt: "\<forall>j<r. geom_distance g (point (pp ! r)) < geom_distance g (point (pp ! j))"
    by blast
  have s: "select_river_idx g pp = r" using assms(1) n by (simp add: select_river_idx_def)
  show "select_river_idx g pp < length pp" using r s by simp
  show "\<forall>j<length pp. geom_distance g (point (pp ! select_river_idx g pp))
                         \<le> geom_distance g (point (pp ! j))" using le s by simp
  show "\<forall>j<select_river_idx g pp. geom_distance g (point (pp ! select_river_idx g pp))
                         < geom_distance g (point (pp ! j))" using lt s by simp
qed

text \<open>
  C4. With a river geometry that evaluates true, the anchor of a non-empty profile is
  the sample at minimum distance to the geometry, the first such sample in offset order.
  With a geometry that is present but evaluates false, the anchor is the midpoint index,
  the length divided by two. When the river layer has no feature there is no geometry
  at all: the analysis returns an empty list at once and selects no anchor.
\<close>

theorem C4_anchor_selection:
  "(truthy g \<and> pp \<noteq> [] \<longrightarrow>
      select_river_idx g pp < length pp
      \<and> (\<forall>j<length pp. geom_distance g (point (pp ! select_river_idx g pp))
                         \<le> geom_distance g (point (pp ! j)))
      \<and> (\<forall>j<select_river_idx g pp. geom_distance g (point (pp ! select_river_idx g pp))
                         < geom_distance g (point (pp ! j))))
   \<and> (\<not> truthy g \<longrightarrow> select_river_idx g pp = length pp div 2)
   \<and> analyze_transects_for_bedrock combine points_layer [] ht st mc ps = Inr []"
proof (intro conjI impI)
  assume a: "truthy g \<and> pp \<noteq> []"
  then show "select_river_idx g pp < length pp"
    using select_river_idx_nearest(1) by blast
  from a show "\<forall>j<length pp. geom_distance g (point (pp ! select_river_idx g pp))
                         \<le> geom_distance g (point (pp ! j))"
    using select_river_idx_nearest(2) by blast
  from a show "\<forall>j<select_river_idx g pp. geom_distance g (point (pp ! select_river_idx g pp))
                         < geom_distance g (point (pp ! j))"
    using select_river_idx_nearest(3) by blast
next
  assume "\<not> truthy g"
  then show "select_river_idx g pp = length pp div 2" by (simp add: select_river_idx_def)
next
  show "analyze_transects_for_bedrock combine points_layer [] ht st mc ps = Inr []"
    by (simp add: analyze_transects_for_bedrock_def combine_rivers_def)
qed

theorem C4_anchor_selection_witness:
  "truthy \<lparr>truthy = True, geom_distance = (\<lambda>p. \<bar>fst p - 1\<bar>), lineLocatePoint = snd\<rparr>
   \<and> [\<lparr>point = (0, 0), elevation = 5, distance = 0, profile_id = 7\<rparr>,
       \<lparr>point = (1, 0), elevation = 0, distance = 1, profile_id = 7\<rparr>,
       \<lparr>point = (2, 0), elevation = 5, distance = 2, profile_id = 7\<rparr>] \<noteq> []
   \<and> select_river_idx
        \<lparr>truthy = True, geom_distance = (\<lambda>p. \<bar>fst p - 1\<bar>), lineLocatePoint = snd\<rparr>
        [\<lparr>point = (0, 0), elevation = 5, distance = 0, profile_id = 7\<rparr>,
         \<lparr>point = (1, 0), elevation = 0, distance = 1, profile_id = 7\<rparr>,
         \<lparr>point = (2, 0), elevation = 5, distance = 2, profile_id = 7\<rparr>] < 3
   \<and> \<not> truthy \<lparr>truthy = False, geom_distance = (\<lambda>p. \<bar>fst p - 1\<bar>), lineLocatePoint = snd\<rparr>
   \<and> select_river_idx
        \<lparr>truthy = False, geom_distance = (\<lambda>p. \<bar>fst p - 1\<bar>), lineLocatePoint = snd\<rparr>
        [\<lparr>point = (0, 0), elevation = 5, distance = 0, profile_id = 7\<rparr>,
         \<lparr>point = (1, 0), elevation = 0, distance = 1, profile_id = 7\<rparr>,
         \<lparr>point = (2, 0), elevation = 5, distance = 2, profile_id = 7\<rparr>] = 3 div 2"
proof -
  let ?pp = "[\<lparr>point = (0, 0), elevation = 5, distance = 0, profile_id = 7\<rparr>,
       \<lparr>point = (1, 0), elevation = 0, distance = 1, profile_id = 7\<rparr>,
       \<lparr>point = (2, 0), elevation = 5, distance = 2, profile_id = 7\<rparr>]"
  let ?g = "\<lparr>truthy = True, geom_distance = (\<lambda>p. \<bar>fst p - 1\<bar>), lineLocatePoint = snd\<rparr>"
  let ?h = "\<lparr>truthy = False, geom_distance = (\<lambda>p. \<bar>fst p - 1\<bar>), lineLocatePoint = snd\<rparr>"
  have t: "truthy ?g \<and> ?pp \<noteq> []" by simp
  have f: "\<not> truthy ?h" by simp
  from C4_anchor_selection [of ?g ?pp] t have "select_river_idx ?g ?pp < length ?pp" by blast
  moreover from C4_anchor_selection [of ?h ?pp] f
  have "select_river_idx ?h ?pp = length ?pp div 2" by blast
  ultimately show ?thesis using t f by simp
qed

text \<open>
  Without any river feature the midpoint is not used: three samples with elevations
  5, 0, 5 give no BankPoint, although anchored at the midpoint (as they are under a
  geometry that evaluates false) they give one BankPoint on each side.
\<close>

theorem C4_no_centerline_counterexample:
  "analyze_transects_for_bedrock (\<lambda>a b. a)
     [\<lparr>TR_ID = Some 7, TR_SEGMENT = None, fid = None, feat_id = 1, geometry = (0, 0),
       elev_1 = Some 5, attr_distance = 0\<rparr>,
      \<lparr>TR_ID = Some 7, TR_SEGMENT = None, fid = None, feat_id = 2, geometry = (1, 0),
       elev_1 = Some 0, attr_distance = 1\<rparr>,
      \<lparr>TR_ID = Some 7, TR_SEGMENT = None, fid = None, feat_id = 3, geometry = (2, 0),
       elev_1 = Some 5, attr_distance = 2\<rparr>]
     [] 3 0 1 1 = Inr []
   \<and> analyze_transects_for_bedrock (\<lambda>a b. a)
     [\<lparr>TR_ID = Some 7, TR_SEGMENT = None, fid = None, feat_id = 1, geometry = (0, 0),
       elev_1 = Some 5, attr_distance = 0\<rparr>,
      \<lparr>TR_ID = Some 7, TR_SEGMENT = None, fid = None, feat_id = 2, geometry = (1, 0),
       elev_1 = Some 0, attr_distance = 1\<rparr>,
      \<lparr>TR_ID = Some 7, TR_SEGMENT = None, fid = None, feat_id = 3, geometry = (2, 0),
       elev_1 = Some 5, attr_distance = 2\<rparr>]
     [\<lparr>truthy = False, geom_distance = (\<lambda>p. 0), lineLocatePoint = (\<lambda>p. 0)\<rparr>] 3 0 1 1
     = Inr [\<lparr>bp_point = (0, 0), bp_elevation = 5, height_diff = 5, side = ''left'',
             bp_profile_id = 7, distance_along = 0\<rparr>,
            \<lparr>bp_point = (2, 0), bp_elevation = 5, height_diff = 5, side = ''right'',
             bp_profile_id = 7, distance_along = 0\<rparr>]"
proof
  let ?feats = "[\<lparr>TR_ID = Some 7, TR_SEGMENT = None, fid = None, feat_id = 1, geometry = (0, 0),
       elev_1 = Some 5, attr_distance = 0\<rparr>,
      \<lparr>TR_ID = Some 7, TR_SEGMENT = None, fid = None, feat_id = 2, geometry = (1, 0),
       elev_1 = Some 0, attr_distance = 1\<rparr>,
      \<lparr>TR_ID = Some 7, TR_SEGMENT = None, fid = None, feat_id = 3, geometry = (2, 0),
       elev_1 = Some 5, attr_distance = 2\<rparr>]"
  show "analyze_transects_for_bedrock (\<lambda>a b. a) ?feats [] 3 0 1 1 = Inr []"
    by (simp add: analyze_transects_for_bedrock_def combine_rivers_def)
  let ?pp = "[\<lparr>point = (0, 0), elevation = 5, distance = 0, profile_id = 7\<rparr>,
            \<lparr>point = (1, 0), elevation = 0, distance = 1, profile_id = 7\<rparr>,
            \<lparr>point = (2, 0), elevation = 5, distance = 2, profile_id = 7\<rparr>]"
  let ?h = "\<lparr>truthy = False, geom_distance = (\<lambda>p. 0), lineLocatePoint = (\<lambda>p. 0)\<rparr>"
  have g: "group_profiles ?feats = [(7, ?pp)]"
    by (simp add: group_profiles_def group_step_def profile_key_def)
  have s: "sort_key distance ?pp = ?pp" by (simp add: sort_key_def)
  have i: "select_river_idx ?h ?pp = Suc 0" by (simp add: select_river_idx_def)
  have l: "find_bedrock_on_side (left_side ?pp (Suc 0)) 0 3 0 1 1 ''left'' 7 0
           = Inr (Some \<lparr>bp_point = (0, 0), bp_elevation = 5, height_diff = 5, side = ''left'',
             bp_profile_id = 7, distance_along = 0\<rparr>)"
    by (simp add: left_side_def find_bedrock_on_side_def py_range_def slope_rejects_def)
  have r: "find_bedrock_on_side (right_side ?pp (Suc 0)) 0 3 0 1 1 ''right'' 7 0
           = Inr (Some \<lparr>bp_point = (2, 0), bp_elevation = 5, height_diff = 5, side = ''right'',
             bp_profile_id = 7, distance_along = 0\<rparr>)"
    by (simp add: right_side_def find_bedrock_on_side_def py_range_def slope_rejects_def)
  have p: "analyze_profile ?h 3 0 1 1 (7, ?pp)
     = Inr [\<lparr>bp_point = (0, 0), bp_elevation = 5, height_diff = 5, side = ''left'',
             bp_profile_id = 7, distance_along = 0\<rparr>,
            \<lparr>bp_point = (2, 0), bp_elevation = 5, height_diff = 5, side = ''right'',
             bp_profile_id = 7, distance_along = 0\<rparr>]"
    unfolding analyze_profile_def analyze_sorted_profile_def
    by (simp add: s i l r found_def)
  show "analyze_transects_for_bedrock (\<lambda>a b. a) ?feats [?h] 3 0 1 1
     = Inr [\<lparr>bp_point = (0, 0), bp_elevation = 5, height_diff = 5, side = ''left'',
             bp_profile_id = 7, distance_along = 0\<rparr>,
            \<lparr>bp_point = (2, 0), bp_elevation = 5, height_diff = 5, side = ''right'',
             bp_profile_id = 7, distance_along = 0\<rparr>]"
    unfolding analyze_transects_for_bedrock_def combine_rivers_def g
    by (simp add: p)
qed

end
